theory Spec2Isabelle
  imports Main "HOL-Library.Multiset"
begin

section \<open>Data model\<close>

text \<open>
  The TypeScript interface \<open>ScoreData\<close> (\<open>created_at: string; id: number; score: number\<close>).
  The API delivers integer scores, so \<open>score\<close> is an \<open>int\<close>; the field \<open>id\<close> is called
  \<open>rec_id\<close> here. \<open>created_at\<close> stays the string the API sent.
\<close>

record ScoreData =
  created_at :: string
  rec_id :: int
  score :: int

text \<open>The accumulator object \<open>{ fun: 0, tired: 0 }\<close> of the totals views.\<close>

record totals =
  acc_fun :: int
  acc_tired :: int

section \<open>Series split of the live view\<close>

text \<open>
  \<open>funData = scoreData.map(item => item.score > 0 ? item.score : null)\<close> and
  \<open>tiredData = scoreData.map(item => item.score < 0 ? Math.abs(item.score) : null)\<close>;
  \<open>null\<close> is \<open>None\<close>.
\<close>

definition funData :: "ScoreData list \<Rightarrow> int option list" where
  "funData scoreData = map (\<lambda>item. if score item > 0 then Some (score item) else None) scoreData"

definition tiredData :: "ScoreData list \<Rightarrow> int option list" where
  "tiredData scoreData =
     map (\<lambda>item. if score item < 0 then Some \<bar>score item\<bar> else None) scoreData"

section \<open>Totals of the totals views\<close>

text \<open>
  The callback of \<open>reduce\<close>: a score \<open>\<ge> 0\<close> is added to \<open>fun\<close>, any other score adds its
  absolute value to \<open>tired\<close>.
\<close>

definition totalData_step :: "totals \<Rightarrow> ScoreData \<Rightarrow> totals" where
  "totalData_step acc item =
     (if score item \<ge> 0 then acc\<lparr>acc_fun := acc_fun acc + score item\<rparr>
      else acc\<lparr>acc_tired := acc_tired acc + \<bar>score item\<bar>\<rparr>)"

definition totalData :: "ScoreData list \<Rightarrow> totals" where
  "totalData xs = foldl totalData_step \<lparr>acc_fun = 0, acc_tired = 0\<rparr> xs"

section \<open>The host's \<open>Date\<close>\<close>

text \<open>
  \<open>new Date(s).getTime()\<close> is a number of milliseconds since 1970-01-01T00:00:00Z, or
  \<open>NaN\<close> for a string that \<open>Date\<close> cannot read. A time value is an \<open>int option\<close>, with
  \<open>None\<close> for \<open>NaN\<close>. The comparisons \<open>>=\<close>, \<open><=\<close> and \<open>>\<close> of JavaScript are false as
  soon as one side is \<open>NaN\<close>, and a difference with \<open>NaN\<close> is \<open>NaN\<close>.
\<close>

definition js_ge :: "int option \<Rightarrow> int option \<Rightarrow> bool" where
  "js_ge a b = (case a of None \<Rightarrow> False | Some x \<Rightarrow> (case b of None \<Rightarrow> False | Some y \<Rightarrow> x \<ge> y))"

definition js_le :: "int option \<Rightarrow> int option \<Rightarrow> bool" where
  "js_le a b = (case a of None \<Rightarrow> False | Some x \<Rightarrow> (case b of None \<Rightarrow> False | Some y \<Rightarrow> x \<le> y))"

definition js_gt :: "int option \<Rightarrow> int option \<Rightarrow> bool" where
  "js_gt a b = (case a of None \<Rightarrow> False | Some x \<Rightarrow> (case b of None \<Rightarrow> False | Some y \<Rightarrow> x > y))"

definition js_minus :: "int option \<Rightarrow> int option \<Rightarrow> int option" where
  "js_minus a b = (case a of None \<Rightarrow> None | Some x \<Rightarrow> (case b of None \<Rightarrow> None | Some y \<Rightarrow> Some (x - y)))"

subsection \<open>Decimal digits\<close>

definition digit :: "char \<Rightarrow> nat option" where
  "digit c = (let n = (of_char c :: nat) in if 48 \<le> n \<and> n \<le> 57 then Some (n - 48) else None)"

fun digits_acc :: "nat \<Rightarrow> string \<Rightarrow> nat option" where
  "digits_acc a [] = Some a"
| "digits_acc a (c # cs) = (case digit c of None \<Rightarrow> None | Some d \<Rightarrow> digits_acc (10 * a + d) cs)"

text \<open>The value of a non-empty string of decimal digits.\<close>

definition number :: "string \<Rightarrow> nat option" where
  "number s = (if s = [] then None else digits_acc 0 s)"

text \<open>\<open>String(n)\<close> for a natural number \<open>n\<close>, and \<open>padStart\<close> with a one-character pad.\<close>

definition digit_char :: "nat \<Rightarrow> char" where
  "digit_char d = ''0123456789'' ! d"

fun String_nat :: "nat \<Rightarrow> string" where
  "String_nat n =
     (if n < 10 then [digit_char n]
      else String_nat (n div 10) @ [digit_char (n mod 10)])"

declare String_nat.simps [simp del]

definition padStart :: "nat \<Rightarrow> char \<Rightarrow> string \<Rightarrow> string" where
  "padStart targetLength c s = replicate (targetLength - length s) c @ s"

subsection \<open>Calendar arithmetic\<close>

text \<open>
  The day number of a date of the proleptic Gregorian calendar, counted from 1970-01-01
  (the \<open>MakeDay\<close> of ECMAScript), and its inverse. Division on \<open>int\<close> rounds down.
\<close>

definition days_from_civil :: "int \<Rightarrow> int \<Rightarrow> int \<Rightarrow> int" where
  "days_from_civil y m d =
     (let y' = (if m \<le> 2 then y - 1 else y);
          era = y' div 400;
          yoe = y' - era * 400;
          doy = (153 * (if m > 2 then m - 3 else m + 9) + 2) div 5 + d - 1;
          doe = yoe * 365 + yoe div 4 - yoe div 100 + doy
      in era * 146097 + doe - 719468)"

definition civil_from_days :: "int \<Rightarrow> int \<times> int \<times> int" where
  "civil_from_days z =
     (let z' = z + 719468;
          era = z' div 146097;
          doe = z' - era * 146097;
          yoe = (doe - doe div 1460 + doe div 36524 - doe div 146096) div 365;
          doy = doe - (365 * yoe + yoe div 4 - yoe div 100);
          mp = (5 * doy + 2) div 153;
          d = doy - (153 * mp + 2) div 5 + 1;
          m = (if mp < 10 then mp + 3 else mp - 9);
          y = yoe + era * 400
      in (if m \<le> 2 then y + 1 else y, m, d))"

definition days_in_month :: "int \<Rightarrow> int \<Rightarrow> int" where
  "days_in_month y m =
     (if m = 2 then (if y mod 4 = 0 \<and> (y mod 100 \<noteq> 0 \<or> y mod 400 = 0) then 29 else 28)
      else if m = 4 \<or> m = 6 \<or> m = 9 \<or> m = 11 then 30 else 31)"

subsection \<open>Reading a date string\<close>

text \<open>
  The date-time string format of ECMAScript, in the forms \<open>YYYY-MM-DD\<close>,
  \<open>YYYY-MM-DDTHH:mm\<close>, \<open>YYYY-MM-DDTHH:mm:ss\<close> and \<open>YYYY-MM-DDTHH:mm:ss.sss\<close>, the last
  three with an optional \<open>Z\<close> or \<open>+HH:mm\<close> / \<open>-HH:mm\<close>. A field out of range makes the
  string unreadable. Without an offset, a date alone is read as UTC and a date with a time
  is read as local time. The local zone of the browser is the parameter \<open>tz\<close>, its offset
  from UTC in minutes (540 for Japan); it is one fixed offset, so daylight saving changes
  are outside the model.
\<close>

definition parse_date :: "string \<Rightarrow> (int \<times> int \<times> int) option" where
  "parse_date s =
     (if length s = 10 \<and> s ! 4 = CHR ''-'' \<and> s ! 7 = CHR ''-'' then
        (case number (take 4 s) of None \<Rightarrow> None | Some y \<Rightarrow>
         (case number (take 2 (drop 5 s)) of None \<Rightarrow> None | Some m \<Rightarrow>
          (case number (drop 8 s) of None \<Rightarrow> None | Some d \<Rightarrow>
             if 1 \<le> m \<and> m \<le> 12 \<and> 1 \<le> d \<and> int d \<le> days_in_month (int y) (int m)
             then Some (int y, int m, int d) else None)))
      else None)"

definition time_of_day :: "nat \<Rightarrow> nat \<Rightarrow> nat \<Rightarrow> nat \<Rightarrow> int option" where
  "time_of_day h mi sec ms =
     (if (h \<le> 23 \<and> mi \<le> 59 \<and> sec \<le> 59) \<or> (h = 24 \<and> mi = 0 \<and> sec = 0 \<and> ms = 0)
      then Some (int (((h * 60 + mi) * 60 + sec) * 1000 + ms)) else None)"

definition parse_time :: "string \<Rightarrow> int option" where
  "parse_time s =
     (if length s = 5 \<and> s ! 2 = CHR '':'' then
        (case number (take 2 s) of None \<Rightarrow> None | Some h \<Rightarrow>
         (case number (drop 3 s) of None \<Rightarrow> None | Some mi \<Rightarrow> time_of_day h mi 0 0))
      else if length s = 8 \<and> s ! 2 = CHR '':'' \<and> s ! 5 = CHR '':'' then
        (case number (take 2 s) of None \<Rightarrow> None | Some h \<Rightarrow>
         (case number (take 2 (drop 3 s)) of None \<Rightarrow> None | Some mi \<Rightarrow>
          (case number (drop 6 s) of None \<Rightarrow> None | Some sec \<Rightarrow> time_of_day h mi sec 0)))
      else if length s = 12 \<and> s ! 2 = CHR '':'' \<and> s ! 5 = CHR '':'' \<and> s ! 8 = CHR ''.'' then
        (case number (take 2 s) of None \<Rightarrow> None | Some h \<Rightarrow>
         (case number (take 2 (drop 3 s)) of None \<Rightarrow> None | Some mi \<Rightarrow>
          (case number (take 2 (drop 6 s)) of None \<Rightarrow> None | Some sec \<Rightarrow>
           (case number (drop 9 s) of None \<Rightarrow> None | Some ms \<Rightarrow> time_of_day h mi sec ms))))
      else None)"

text \<open>
  The date and the time of a string without its offset: milliseconds from the epoch as if
  the string were UTC, and whether the string has a time.
\<close>

definition parse_body :: "string \<Rightarrow> (int \<times> bool) option" where
  "parse_body s =
     (if length s = 10 then
        (case parse_date s of None \<Rightarrow> None
         | Some (y, m, d) \<Rightarrow> Some (days_from_civil y m d * 86400000, False))
      else if length s > 10 \<and> s ! 10 = CHR ''T'' then
        (case parse_date (take 10 s) of None \<Rightarrow> None
         | Some (y, m, d) \<Rightarrow>
            (case parse_time (drop 11 s) of None \<Rightarrow> None
             | Some t \<Rightarrow> Some (days_from_civil y m d * 86400000 + t, True)))
      else None)"

datatype zone = ZNone | ZUtc | ZOffset int

text \<open>
  The offset at the end of the string: \<open>Z\<close>, or a sign, two digits, a colon and two
  digits; what is left is the date and time.
\<close>

definition split_zone :: "string \<Rightarrow> (string \<times> zone) option" where
  "split_zone s =
     (let n = length s in
      if n \<ge> 1 \<and> s ! (n - 1) = CHR ''Z'' then Some (take (n - 1) s, ZUtc)
      else if n \<ge> 6 \<and> (s ! (n - 6) = CHR ''+'' \<or> s ! (n - 6) = CHR ''-'') \<and> s ! (n - 3) = CHR '':'' then
        (case number (take 2 (drop (n - 5) s)) of None \<Rightarrow> None | Some h \<Rightarrow>
         (case number (drop (n - 2) s) of None \<Rightarrow> None | Some mi \<Rightarrow>
            if h \<le> 23 \<and> mi \<le> 59
            then Some (take (n - 6) s,
                       ZOffset ((if s ! (n - 6) = CHR ''-'' then - 1 else 1) * int (h * 60 + mi)))
            else None))
      else Some (s, ZNone))"

definition Date_parse_iso :: "int \<Rightarrow> string \<Rightarrow> int option" where
  "Date_parse_iso tz s =
     (case split_zone s of None \<Rightarrow> None
      | Some (body, z) \<Rightarrow>
         (case parse_body body of None \<Rightarrow> None
          | Some (ms, has_time) \<Rightarrow>
             (case z of
                ZNone \<Rightarrow> Some (if has_time then ms - tz * 60000 else ms)
              | ZUtc \<Rightarrow> if has_time then Some ms else None
              | ZOffset off \<Rightarrow> if has_time then Some (ms - off * 60000) else None)))"

text \<open>
  A string outside that format is left to the implementation by the standard. The one such
  form the views produce is \<open>YYYY/MM/DD HH:mm:ss\<close> (the output of \<open>formatDateToJST\<close>),
  which the browsers read as local time; every other string is \<open>NaN\<close> in the model.
\<close>

definition Date_parse_legacy :: "int \<Rightarrow> string \<Rightarrow> int option" where
  "Date_parse_legacy tz s =
     (if length s = 19 \<and> s ! 4 = CHR ''/'' \<and> s ! 7 = CHR ''/'' \<and> s ! 10 = CHR '' '' \<and>
         s ! 13 = CHR '':'' \<and> s ! 16 = CHR '':'' then
        (case number (take 4 s) of None \<Rightarrow> None | Some y \<Rightarrow>
         (case number (take 2 (drop 5 s)) of None \<Rightarrow> None | Some m \<Rightarrow>
          (case number (take 2 (drop 8 s)) of None \<Rightarrow> None | Some d \<Rightarrow>
           (case parse_time (drop 11 s) of None \<Rightarrow> None | Some t \<Rightarrow>
              if 1 \<le> m \<and> m \<le> 12 \<and> 1 \<le> d \<and> int d \<le> days_in_month (int y) (int m)
              then Some (days_from_civil (int y) (int m) (int d) * 86400000 + t - tz * 60000)
              else None))))
      else None)"

text \<open>\<open>new Date(s).getTime()\<close> in a browser whose local zone is \<open>tz\<close> minutes east of UTC.\<close>

definition Date_getTime :: "int \<Rightarrow> string \<Rightarrow> int option" where
  "Date_getTime tz s =
     (case Date_parse_iso tz s of Some t \<Rightarrow> Some t | None \<Rightarrow> Date_parse_legacy tz s)"

text \<open>
  The instant of a date with a time when it is read at a fixed offset of \<open>off\<close> minutes from
  UTC, whatever the local zone is: what \<open>Date\<close> gives for the string followed by that
  offset.
\<close>

definition instant_at :: "int \<Rightarrow> string \<Rightarrow> int option" where
  "instant_at off s =
     (case parse_body s of
        None \<Rightarrow> None
      | Some (ms, has_time) \<Rightarrow> if has_time then Some (ms - off * 60000) else None)"

text \<open>
  A timestamp as the API sends it according to the data model: a date with a time and
  without an offset.
\<close>

definition naive_datetime :: "string \<Rightarrow> bool" where
  "naive_datetime s \<longleftrightarrow> split_zone s = Some (s, ZNone) \<and> instant_at 0 s \<noteq> None"

subsection \<open>Formatting in Japan time\<close>

text \<open>
  \<open>Intl.DateTimeFormat("ja-JP", {timeZone: "Asia/Tokyo", year: "numeric", month: "2-digit",
  day: "2-digit", hour: "2-digit", minute: "2-digit", second: "2-digit"}).format\<close> of a
  valid date: \<open>YYYY/MM/DD HH:mm:ss\<close> at UTC+9, for the years from 1 on. The milliseconds
  are dropped.
\<close>

definition Intl_format_Tokyo :: "int \<Rightarrow> string" where
  "Intl_format_Tokyo t =
     (let local = t + 540 * 60000;
          day = local div 86400000;
          sec = (local mod 86400000) div 1000
      in case civil_from_days day of (y, m, d) \<Rightarrow>
           String_nat (nat y) @ ''/'' @ padStart 2 (CHR ''0'') (String_nat (nat m)) @ ''/'' @
           padStart 2 (CHR ''0'') (String_nat (nat d)) @ '' '' @
           padStart 2 (CHR ''0'') (String_nat (nat (sec div 3600))) @ '':'' @
           padStart 2 (CHR ''0'') (String_nat (nat ((sec div 60) mod 60))) @ '':'' @
           padStart 2 (CHR ''0'') (String_nat (nat (sec mod 60))))"

datatype js_error = RangeError

text \<open>
  \<open>formatDateToJST\<close> reads \<open>`${dateString}Z`\<close> and formats it; \<open>format\<close> throws a
  \<open>RangeError\<close> on an invalid date.
\<close>

definition formatDateToJST :: "int \<Rightarrow> string \<Rightarrow> js_error + string" where
  "formatDateToJST tz dateString =
     (case Date_getTime tz (dateString @ ''Z'') of
        None \<Rightarrow> Inl RangeError
      | Some t \<Rightarrow> Inr (Intl_format_Tokyo t))"

section \<open>\<open>Array.prototype.sort\<close> and \<open>filter\<close>\<close>

text \<open>
  \<open>sort(comparefn)\<close> is a stable sort; a comparison result that is \<open>NaN\<close> counts as 0.
  The model is insertion sort: an element goes before the first element that it is not
  greater than. For a consistent \<open>comparefn\<close> this is the result the standard prescribes;
  for an inconsistent one (which the standard leaves open) it is one admissible result.
\<close>

definition js_positive :: "int option \<Rightarrow> bool" where
  "js_positive v = (case v of None \<Rightarrow> False | Some x \<Rightarrow> x > 0)"

fun sort_insert :: "('a \<Rightarrow> 'a \<Rightarrow> int option) \<Rightarrow> 'a \<Rightarrow> 'a list \<Rightarrow> 'a list" where
  "sort_insert comparefn x [] = [x]"
| "sort_insert comparefn x (y # ys) =
     (if js_positive (comparefn x y) then y # sort_insert comparefn x ys else x # y # ys)"

definition Array_sort :: "('a \<Rightarrow> 'a \<Rightarrow> int option) \<Rightarrow> 'a list \<Rightarrow> 'a list" where
  "Array_sort comparefn xs = foldr (sort_insert comparefn) xs []"

text \<open>\<open>filter\<close> with a callback that may throw: the first exception ends the call.\<close>

fun filter_throwing :: "('a \<Rightarrow> js_error + bool) \<Rightarrow> 'a list \<Rightarrow> js_error + 'a list" where
  "filter_throwing p [] = Inr []"
| "filter_throwing p (x # xs) =
     (case p x of
        Inl e \<Rightarrow> Inl e
      | Inr keep \<Rightarrow>
         (case filter_throwing p xs of
            Inl e \<Rightarrow> Inl e
          | Inr ys \<Rightarrow> Inr (if keep then x # ys else ys)))"

section \<open>Fetching\<close>

text \<open>
  What one call of \<open>fetch\<close> and of \<open>response.json()\<close> can do: a promise is fulfilled with a
  value or rejected with a thrown value, which is an \<open>Error\<close> with a message or something
  else. The payload is taken to have the shape of the interface \<open>ApiResponse\<close>.
\<close>

datatype thrown = JsError string | NonError

datatype 'a settled = Fulfilled 'a | Rejected thrown

record ApiResponse =
  data :: "ScoreData list"
  status :: string

record Response =
  ok :: bool
  json :: "ApiResponse settled"

text \<open>
  The three messages of the source are Japanese; a string is a list of bytes here, so they
  are given in UTF-8. \<open>msg_fetch_failed\<close> ("failed to get the data") is thrown when
  \<open>response.ok\<close> is false, \<open>msg_bad_status\<close> ("the answer of the API is not normal") when the
  status is not \<open>OK\<close>, and \<open>msg_unknown\<close> ("an unknown error happened") stands for a thrown
  value that is no \<open>Error\<close>.
\<close>

definition msg_fetch_failed :: string where
  "msg_fetch_failed =
     [CHR 0xE3, CHR 0x83, CHR 0x87, CHR 0xE3, CHR 0x83, CHR 0xBC, CHR 0xE3, CHR 0x82, CHR 0xBF,
      CHR 0xE3, CHR 0x81, CHR 0xAE, CHR 0xE5, CHR 0x8F, CHR 0x96, CHR 0xE5, CHR 0xBE, CHR 0x97,
      CHR 0xE3, CHR 0x81, CHR 0xAB, CHR 0xE5, CHR 0xA4, CHR 0xB1, CHR 0xE6, CHR 0x95, CHR 0x97,
      CHR 0xE3, CHR 0x81, CHR 0x97, CHR 0xE3, CHR 0x81, CHR 0xBE, CHR 0xE3, CHR 0x81, CHR 0x97,
      CHR 0xE3, CHR 0x81, CHR 0x9F]"

definition msg_bad_status :: string where
  "msg_bad_status =
     [CHR 0x41, CHR 0x50, CHR 0x49, CHR 0xE3, CHR 0x81, CHR 0x8B, CHR 0xE3, CHR 0x82, CHR 0x89,
      CHR 0xE3, CHR 0x81, CHR 0xAE, CHR 0xE5, CHR 0xBF, CHR 0x9C, CHR 0xE7, CHR 0xAD, CHR 0x94,
      CHR 0xE3, CHR 0x81, CHR 0x8C, CHR 0xE6, CHR 0xAD, CHR 0xA3, CHR 0xE5, CHR 0xB8, CHR 0xB8,
      CHR 0xE3, CHR 0x81, CHR 0xA7, CHR 0xE3, CHR 0x81, CHR 0xAF, CHR 0xE3, CHR 0x81, CHR 0x82,
      CHR 0xE3, CHR 0x82, CHR 0x8A, CHR 0xE3, CHR 0x81, CHR 0xBE, CHR 0xE3, CHR 0x81, CHR 0x9B,
      CHR 0xE3, CHR 0x82, CHR 0x93]"

definition msg_unknown :: string where
  "msg_unknown =
     [CHR 0xE4, CHR 0xB8, CHR 0x8D, CHR 0xE6, CHR 0x98, CHR 0x8E, CHR 0xE3, CHR 0x81, CHR 0xAA,
      CHR 0xE3, CHR 0x82, CHR 0xA8, CHR 0xE3, CHR 0x83, CHR 0xA9, CHR 0xE3, CHR 0x83, CHR 0xBC,
      CHR 0xE3, CHR 0x81, CHR 0x8C, CHR 0xE7, CHR 0x99, CHR 0xBA, CHR 0xE7, CHR 0x94, CHR 0x9F,
      CHR 0xE3, CHR 0x81, CHR 0x97, CHR 0xE3, CHR 0x81, CHR 0xBE, CHR 0xE3, CHR 0x81, CHR 0x97,
      CHR 0xE3, CHR 0x81, CHR 0x9F]"

text \<open>\<open>err instanceof Error ? err.message : "..."\<close> of the \<open>catch\<close> block.\<close>

definition catch_message :: "thrown \<Rightarrow> string" where
  "catch_message err = (case err of JsError m \<Rightarrow> m | NonError \<Rightarrow> msg_unknown)"

text \<open>
  The state of a view: the \<open>useState\<close> cells. Every view has \<open>scoreData\<close>, \<open>loading\<close> and
  \<open>error\<close>; the filtering totals views add \<open>filteredData\<close> and the two dates, and then
  \<open>timeRange\<close> (\<open>total/page.tsx\<close>) or \<open>startTime\<close> and \<open>endTime\<close> (the totals view with the
  navigation button). The hours come from sliders with the values 0 to 23.
\<close>

record view_state =
  scoreData :: "ScoreData list"
  loading :: bool
  error :: "string option"

record filter_state = view_state +
  filteredData :: "ScoreData list"
  startDate :: string
  endDate :: string

record page_state = filter_state +
  timeRange :: "nat \<times> nat"

record total_state = filter_state +
  startTime :: nat
  endTime :: nat

text \<open>
  The \<open>try\<close> block of \<open>fetchData\<close> up to the test of the status, the same in every view:
  either it throws (\<open>Inl\<close>, the value the \<open>catch\<close> block receives) or it reaches the
  branch of \<open>result.status === "OK"\<close> with \<open>result.data\<close> (\<open>Inr\<close>).
\<close>

definition fetch_try :: "Response settled \<Rightarrow> thrown + ScoreData list" where
  "fetch_try outcome =
     (case outcome of
        Rejected err \<Rightarrow> Inl err
      | Fulfilled response \<Rightarrow>
         if \<not> ok response then Inl (JsError msg_fetch_failed)
         else (case json response of
                 Rejected err \<Rightarrow> Inl err
               | Fulfilled result \<Rightarrow>
                  if status result = ''OK'' then Inr (data result)
                  else Inl (JsError msg_bad_status)))"

text \<open>
  One cycle of \<open>fetchData\<close>, from the call of \<open>fetch\<close> to the \<open>finally\<close> block, as a step on
  the state; the state updates of one cycle are seen together by the next render. The live
  views (\<open>Home\<close>) sort the records by \<open>new Date(created_at).getTime()\<close>.
\<close>

definition compare_created_at :: "int \<Rightarrow> ScoreData \<Rightarrow> ScoreData \<Rightarrow> int option" where
  "compare_created_at tz a b =
     js_minus (Date_getTime tz (created_at a)) (Date_getTime tz (created_at b))"

definition Home_fetchData ::
  "int \<Rightarrow> 'a view_state_scheme \<Rightarrow> Response settled \<Rightarrow> 'a view_state_scheme" where
  "Home_fetchData tz s outcome =
     (case fetch_try outcome of
        Inr d \<Rightarrow> s\<lparr>scoreData := Array_sort (compare_created_at tz) d, loading := False\<rparr>
      | Inl err \<Rightarrow> s\<lparr>error := Some (catch_message err), loading := False\<rparr>)"

text \<open>The totals view without a filter stores the records as they came.\<close>

definition TotalScore_fetchData ::
  "'a view_state_scheme \<Rightarrow> Response settled \<Rightarrow> 'a view_state_scheme" where
  "TotalScore_fetchData s outcome =
     (case fetch_try outcome of
        Inr d \<Rightarrow> s\<lparr>scoreData := d, loading := False\<rparr>
      | Inl err \<Rightarrow> s\<lparr>error := Some (catch_message err), loading := False\<rparr>)"

text \<open>
  The two filtering totals views (\<open>total/page.tsx\<close> and the totals view with the navigation
  button) also set \<open>filteredData\<close> to the records.
\<close>

definition Filtered_fetchData ::
  "'a filter_state_scheme \<Rightarrow> Response settled \<Rightarrow> 'a filter_state_scheme" where
  "Filtered_fetchData s outcome =
     (case fetch_try outcome of
        Inr d \<Rightarrow> s\<lparr>scoreData := d, filteredData := d, loading := False\<rparr>
      | Inl err \<Rightarrow> s\<lparr>error := Some (catch_message err), loading := False\<rparr>)"

section \<open>Rendering\<close>

text \<open>
  The two guards in front of the \<open>return\<close> of every view:
  \<open>if (loading && scoreData.length === 0) return <loading>; if (error) return <error>\<close>.
  \<open>error\<close> is a string or \<open>null\<close>, and the empty string is as false as \<open>null\<close>.
\<close>

datatype screen = LoadingScreen | ErrorScreen string | MainScreen

definition render :: "'a view_state_scheme \<Rightarrow> screen" where
  "render s =
     (if loading s \<and> length (scoreData s) = 0 then LoadingScreen
      else (case error s of
              None \<Rightarrow> MainScreen
            | Some m \<Rightarrow> if m \<noteq> [] then ErrorScreen m else MainScreen))"

text \<open>
  That is the whole of the render of the totals views and of the first live view, which
  shows \<open>created_at\<close> as it is. The live views with Japan-time labels compute
  \<open>labels: scoreData.map((item) => formatDateToJST(item.created_at))\<close> for the chart in
  front of the guards, so their render throws when a \<open>created_at\<close> cannot be read.
\<close>

fun map_throwing :: "('a \<Rightarrow> js_error + 'b) \<Rightarrow> 'a list \<Rightarrow> js_error + 'b list" where
  "map_throwing g [] = Inr []"
| "map_throwing g (x # xs) =
     (case g x of
        Inl e \<Rightarrow> Inl e
      | Inr y \<Rightarrow> (case map_throwing g xs of Inl e \<Rightarrow> Inl e | Inr ys \<Rightarrow> Inr (y # ys)))"

definition Home_render :: "int \<Rightarrow> 'a view_state_scheme \<Rightarrow> js_error + screen" where
  "Home_render tz s =
     (case map_throwing (\<lambda>item. formatDateToJST tz (created_at item)) (scoreData s) of
        Inl e \<Rightarrow> Inl e
      | Inr labels \<Rightarrow> Inr (render s))"

text \<open>The state a view starts in, for the parts every view has.\<close>

definition initial_view :: view_state where
  "initial_view = \<lparr>scoreData = [], loading = True, error = None\<rparr>"

section \<open>Filtering by date and hour\<close>

text \<open>
  \<open>applyDateFilter\<close> of \<open>total/page.tsx\<close>, run by the button. The callback of \<open>filter\<close>
  reads all three strings without an offset.
\<close>

definition applyDateFilter_item :: "int \<Rightarrow> string \<Rightarrow> string \<Rightarrow> nat \<times> nat \<Rightarrow> ScoreData \<Rightarrow> bool" where
  "applyDateFilter_item tz start_date end_date time_range item =
     (let createdAt = Date_getTime tz (created_at item);
          start = Date_getTime tz
                    (start_date @ ''T'' @ padStart 2 (CHR ''0'') (String_nat (fst time_range)) @ '':00'');
          end = Date_getTime tz
                  (end_date @ ''T'' @ padStart 2 (CHR ''0'') (String_nat (snd time_range)) @ '':59'')
      in js_ge createdAt start \<and> js_le createdAt end)"

definition applyDateFilter :: "int \<Rightarrow> page_state \<Rightarrow> page_state" where
  "applyDateFilter tz s =
     (if startDate s \<noteq> [] \<and> endDate s \<noteq> [] then
        s\<lparr>filteredData :=
            filter (applyDateFilter_item tz (startDate s) (endDate s) (timeRange s)) (scoreData s)\<rparr>
      else s)"

text \<open>
  The filtering effect of the totals view with the navigation button, run after every change
  of a date, an hour or the records. Its callback formats \<open>created_at\<close> in Japan time and
  reads the formatted string again; the two ends carry the offset \<open>+09:00\<close>.
\<close>

definition filterEffect_item ::
  "int \<Rightarrow> string \<Rightarrow> string \<Rightarrow> nat \<Rightarrow> nat \<Rightarrow> ScoreData \<Rightarrow> js_error + bool" where
  "filterEffect_item tz start_date end_date start_time end_time item =
     (case formatDateToJST tz (created_at item) of
        Inl e \<Rightarrow> Inl e
      | Inr formatted \<Rightarrow>
         Inr (let createdAt = Date_getTime tz formatted;
                  start = Date_getTime tz
                            (start_date @ ''T'' @ padStart 2 (CHR ''0'') (String_nat start_time) @
                             '':00:00+09:00'');
                  end = Date_getTime tz
                          (end_date @ ''T'' @ padStart 2 (CHR ''0'') (String_nat end_time) @
                           '':59:59+09:00'')
              in js_ge createdAt start \<and> js_le createdAt end))"

definition filterEffect :: "int \<Rightarrow> total_state \<Rightarrow> js_error + total_state" where
  "filterEffect tz s =
     (if startDate s \<noteq> [] \<and> endDate s \<noteq> [] then
        (case filter_throwing
                (filterEffect_item tz (startDate s) (endDate s) (startTime s) (endTime s))
                (scoreData s) of
           Inl e \<Rightarrow> Inl e
         | Inr filtered \<Rightarrow> Inr (s\<lparr>filteredData := filtered\<rparr>))
      else Inr s)"

section \<open>Properties of the series split\<close>

lemma length_funData: "length (funData xs) = length xs"
  by (simp add: funData_def)

lemma length_tiredData: "length (tiredData xs) = length xs"
  by (simp add: tiredData_def)

text \<open>
  C2. Both series have the length of the record set; entry \<open>i\<close> of the fun series is the
  score when it is positive and absent otherwise, entry \<open>i\<close> of the tired series is the
  absolute value of the score when it is negative and absent otherwise; a record of score 0
  is absent from both.
\<close>

theorem series_split:
  "length (funData xs) = length xs \<and> length (tiredData xs) = length xs \<and>
   (\<forall>i < length xs.
      funData xs ! i = (if score (xs ! i) > 0 then Some (score (xs ! i)) else None) \<and>
      tiredData xs ! i = (if score (xs ! i) < 0 then Some \<bar>score (xs ! i)\<bar> else None) \<and>
      (score (xs ! i) = 0 \<longrightarrow> funData xs ! i = None \<and> tiredData xs ! i = None))"
  by (simp add: funData_def tiredData_def)

theorem series_split_witness:
  "length (funData [\<lparr>created_at = ''2024-10-05T01:00:00'', rec_id = 1, score = 10\<rparr>,
                    \<lparr>created_at = ''2024-10-05T02:00:00'', rec_id = 2, score = -5\<rparr>,
                    \<lparr>created_at = ''2024-10-05T03:00:00'', rec_id = 3, score = 0\<rparr>]) = 3 \<and>
   funData [\<lparr>created_at = ''2024-10-05T01:00:00'', rec_id = 1, score = 10\<rparr>,
            \<lparr>created_at = ''2024-10-05T02:00:00'', rec_id = 2, score = -5\<rparr>,
            \<lparr>created_at = ''2024-10-05T03:00:00'', rec_id = 3, score = 0\<rparr>] ! 2 = None \<and>
   tiredData [\<lparr>created_at = ''2024-10-05T01:00:00'', rec_id = 1, score = 10\<rparr>,
              \<lparr>created_at = ''2024-10-05T02:00:00'', rec_id = 2, score = -5\<rparr>,
              \<lparr>created_at = ''2024-10-05T03:00:00'', rec_id = 3, score = 0\<rparr>] ! 1 = Some 5"
  using series_split [of "[\<lparr>created_at = ''2024-10-05T01:00:00'', rec_id = 1, score = 10\<rparr>,
                    \<lparr>created_at = ''2024-10-05T02:00:00'', rec_id = 2, score = -5\<rparr>,
                    \<lparr>created_at = ''2024-10-05T03:00:00'', rec_id = 3, score = 0\<rparr>]"]
  by simp

text \<open>
  C7. At no index are both series present, and at a record of score 0 both are absent.
\<close>

theorem series_disjoint:
  "\<forall>i < length xs.
     \<not> (funData xs ! i \<noteq> None \<and> tiredData xs ! i \<noteq> None) \<and>
     (score (xs ! i) = 0 \<longrightarrow> funData xs ! i = None \<and> tiredData xs ! i = None)"
  by (simp add: funData_def tiredData_def)

theorem series_disjoint_witness:
  "\<not> (funData [\<lparr>created_at = ''2024-10-05T01:00:00'', rec_id = 1, score = 10\<rparr>,
               \<lparr>created_at = ''2024-10-05T03:00:00'', rec_id = 3, score = 0\<rparr>] ! 0 \<noteq> None \<and>
       tiredData [\<lparr>created_at = ''2024-10-05T01:00:00'', rec_id = 1, score = 10\<rparr>,
                 \<lparr>created_at = ''2024-10-05T03:00:00'', rec_id = 3, score = 0\<rparr>] ! 0 \<noteq> None) \<and>
   funData [\<lparr>created_at = ''2024-10-05T01:00:00'', rec_id = 1, score = 10\<rparr>,
            \<lparr>created_at = ''2024-10-05T03:00:00'', rec_id = 3, score = 0\<rparr>] ! 1 = None \<and>
   tiredData [\<lparr>created_at = ''2024-10-05T01:00:00'', rec_id = 1, score = 10\<rparr>,
              \<lparr>created_at = ''2024-10-05T03:00:00'', rec_id = 3, score = 0\<rparr>] ! 1 = None"
  using series_disjoint [of "[\<lparr>created_at = ''2024-10-05T01:00:00'', rec_id = 1, score = 10\<rparr>,
               \<lparr>created_at = ''2024-10-05T03:00:00'', rec_id = 3, score = 0\<rparr>]"]
  by simp

section \<open>Properties of the totals\<close>

lemma foldl_totalData_step_fun:
  "acc_fun (foldl totalData_step acc xs) =
     acc_fun acc + sum_list (map score (filter (\<lambda>item. score item \<ge> 0) xs))"
  by (induction xs arbitrary: acc) (simp_all add: totalData_step_def)

lemma foldl_totalData_step_tired:
  "acc_tired (foldl totalData_step acc xs) =
     acc_tired acc + sum_list (map (\<lambda>item. \<bar>score item\<bar>) (filter (\<lambda>item. score item < 0) xs))"
  by (induction xs arbitrary: acc) (simp_all add: totalData_step_def)

lemma foldl_totalData_step_sum:
  "acc_fun (foldl totalData_step acc xs) + acc_tired (foldl totalData_step acc xs) =
     acc_fun acc + acc_tired acc + sum_list (map (\<lambda>item. \<bar>score item\<bar>) xs)"
  by (induction xs arbitrary: acc) (simp_all add: totalData_step_def)

text \<open>
  C9. Over the whole record set, \<open>fun + tired\<close> of the totals is the sum of the absolute
  values of all scores.
\<close>

theorem total_decomposition:
  "acc_fun (totalData R) + acc_tired (totalData R) = sum_list (map (\<lambda>item. \<bar>score item\<bar>) R)"
  by (simp add: totalData_def foldl_totalData_step_sum)

section \<open>Properties of \<open>Date\<close>\<close>

lemma split_zone_Z: "split_zone (s @ ''Z'') = Some (s, ZUtc)"
  by (simp add: split_zone_def)

lemma Date_getTime_Z: "instant_at 0 s = Some t \<Longrightarrow> Date_getTime tz (s @ ''Z'') = Some t"
  by (auto simp: Date_getTime_def Date_parse_iso_def split_zone_Z instant_at_def
           split: option.splits if_splits)

lemma Date_getTime_naive:
  "split_zone s = Some (s, ZNone) \<Longrightarrow> instant_at 0 s = Some t \<Longrightarrow>
   Date_getTime tz s = Some (t - tz * 60000)"
  by (auto simp: Date_getTime_def Date_parse_iso_def instant_at_def
           split: option.splits if_splits)

lemma split_zone_plus9: "split_zone (x @ ''+09:00'') = Some (x, ZOffset 540)"
  by (simp add: split_zone_def number_def digit_def nth_append)

lemma Date_parse_legacy_plus9: "Date_parse_legacy tz (x @ ''+09:00'') = None"
  by (auto simp: Date_parse_legacy_def nth_append)

lemma Date_getTime_plus9: "Date_getTime tz (x @ ''+09:00'') = instant_at 540 x"
  by (auto simp: Date_getTime_def Date_parse_iso_def split_zone_plus9 Date_parse_legacy_plus9
        instant_at_def split: option.splits)

lemma parse_body_T: "parse_body (CHR ''T'' # x) = None"
  by (simp add: parse_body_def parse_date_def number_def digit_def split: option.splits)

lemma instant_at_T: "instant_at off (CHR ''T'' # x) = None"
  by (simp add: instant_at_def parse_body_T)

lemma digit_char_not_sign:
  assumes "j < 10"
  shows "digit_char j \<noteq> CHR ''+'' \<and> digit_char j \<noteq> CHR ''-'' \<and> digit_char j \<noteq> CHR '':''"
proof -
  from assms have "j = 0 \<or> j = 1 \<or> j = 2 \<or> j = 3 \<or> j = 4 \<or> j = 5 \<or> j = 6 \<or> j = 7 \<or> j = 8 \<or> j = 9"
    by arith
  then show ?thesis
    by (elim disjE) (simp_all add: digit_char_def)
qed

lemma String_nat_shape:
  "\<exists>xs k. String_nat n = xs @ [digit_char k] \<and> k < 10 \<and> (\<forall>c\<in>set xs. \<exists>j<10. c = digit_char j)"
proof (induction n rule: String_nat.induct)
  case (1 n)
  show ?case
  proof (cases "n < 10")
    case True
    then have "String_nat n = [] @ [digit_char n]"
      by (simp add: String_nat.simps)
    with True show ?thesis by fastforce
  next
    case False
    with 1 obtain xs k where xs: "String_nat (n div 10) = xs @ [digit_char k]" "k < 10"
      "\<forall>c\<in>set xs. \<exists>j<10. c = digit_char j"
      by blast
    from False have "String_nat n = (xs @ [digit_char k]) @ [digit_char (n mod 10)]"
      using xs(1) by (subst String_nat.simps) simp
    moreover have "n mod 10 < 10" by simp
    moreover have "\<forall>c\<in>set (xs @ [digit_char k]). \<exists>j<10. c = digit_char j"
      using xs(2,3) by auto
    ultimately show ?thesis by blast
  qed
qed

lemma hour_string_shape:
  "\<exists>pre c h1 h2. d @ ''T'' @ padStart 2 (CHR ''0'') (String_nat h) = pre @ [c, h1, h2] \<and>
      c \<noteq> CHR ''+'' \<and> c \<noteq> CHR ''-'' \<and> c \<noteq> CHR '':''"
proof (cases "h < 10")
  case True
  then have "d @ ''T'' @ padStart 2 (CHR ''0'') (String_nat h) = d @ [CHR ''T'', CHR ''0'', digit_char h]"
    by (simp add: String_nat.simps padStart_def)
  then show ?thesis by fastforce
next
  case False
  obtain xs k where xs: "String_nat (h div 10) = xs @ [digit_char k]"
    "\<forall>c\<in>set xs. \<exists>j<10. c = digit_char j"
    using String_nat_shape [of "h div 10"] by blast
  from False have sn: "String_nat h = xs @ [digit_char k, digit_char (h mod 10)]"
    using xs(1) by (subst String_nat.simps) simp
  then have pad: "padStart 2 (CHR ''0'') (String_nat h) = xs @ [digit_char k, digit_char (h mod 10)]"
    by (simp add: padStart_def)
  show ?thesis
  proof (cases xs rule: rev_cases)
    case Nil
    with pad have "d @ ''T'' @ padStart 2 (CHR ''0'') (String_nat h) =
        d @ [CHR ''T'', digit_char k, digit_char (h mod 10)]"
      by simp
    then show ?thesis by fastforce
  next
    case (snoc ys y)
    with xs(2) obtain j where j: "j < 10" "y = digit_char j" by auto
    from snoc pad have "d @ ''T'' @ padStart 2 (CHR ''0'') (String_nat h) =
        (d @ ''T'' @ ys) @ [y, digit_char k, digit_char (h mod 10)]"
      by simp
    moreover have "y \<noteq> CHR ''+'' \<and> y \<noteq> CHR ''-'' \<and> y \<noteq> CHR '':''"
      using digit_char_not_sign [OF j(1)] j(2) by simp
    ultimately show ?thesis by blast
  qed
qed

lemma split_zone_no_offset:
  assumes "c \<noteq> CHR ''+''" "c \<noteq> CHR ''-''" "b \<noteq> CHR ''Z''"
  shows "split_zone (pre @ [c, h1, h2, m0, a, b]) = Some (pre @ [c, h1, h2, m0, a, b], ZNone)"
  using assms by (simp add: split_zone_def nth_append)

lemma Date_parse_legacy_no_colon:
  assumes "c \<noteq> CHR '':''"
  shows "Date_parse_legacy tz (pre @ [c, h1, h2, m0, a, b]) = None"
  using assms by (auto simp: Date_parse_legacy_def nth_append)

lemma Date_getTime_no_offset:
  assumes "split_zone s = Some (s, ZNone)" "Date_parse_legacy tz s = None"
    "length s \<noteq> 10"
  shows "Date_getTime tz s = instant_at tz s"
proof -
  have "\<And>ms. parse_body s \<noteq> Some (ms, False)"
    using assms(3) by (auto simp: parse_body_def split: if_splits option.splits)
  then show ?thesis
    using assms(1,2)
    by (auto simp: Date_getTime_def Date_parse_iso_def instant_at_def split: option.splits)
qed

lemma Date_getTime_boundary:
  assumes "b \<noteq> CHR ''Z''"
  shows "Date_getTime tz (d @ ''T'' @ padStart 2 (CHR ''0'') (String_nat h) @ [CHR '':'', a, b]) =
         instant_at tz (d @ ''T'' @ padStart 2 (CHR ''0'') (String_nat h) @ [CHR '':'', a, b])"
proof -
  obtain pre c h1 h2 where sh: "d @ ''T'' @ padStart 2 (CHR ''0'') (String_nat h) = pre @ [c, h1, h2]"
    "c \<noteq> CHR ''+''" "c \<noteq> CHR ''-''" "c \<noteq> CHR '':''"
    using hour_string_shape by blast
  have eq: "d @ ''T'' @ padStart 2 (CHR ''0'') (String_nat h) @ [CHR '':'', a, b] =
        pre @ [c, h1, h2, CHR '':'', a, b]"
    using sh(1) by (metis append.assoc append_Cons append_Nil)
  show ?thesis
  proof (cases "length (pre @ [c, h1, h2, CHR '':'', a, b]) = 10")
    case True
    then have "length pre = 4" by simp
    then have "(pre @ [c, h1, h2, CHR '':'', a, b]) ! 4 = c"
      by (simp add: nth_append)
    with sh(3) True have "parse_body (pre @ [c, h1, h2, CHR '':'', a, b]) = None"
      by (simp add: parse_body_def parse_date_def)
    then show ?thesis
      unfolding eq
      using split_zone_no_offset [OF sh(2,3) assms, of pre h1 h2 "CHR '':''" a]
        Date_parse_legacy_no_colon [OF sh(4), of tz pre h1 h2 "CHR '':''" a b]
      by (simp add: Date_getTime_def Date_parse_iso_def instant_at_def)
  next
    case False
    show ?thesis
      unfolding eq
      by (rule Date_getTime_no_offset [OF split_zone_no_offset [OF sh(2,3) assms]
            Date_parse_legacy_no_colon [OF sh(4)] False])
  qed
qed

lemma Date_getTime_start: 
  "Date_getTime tz (d @ ''T'' @ padStart 2 (CHR ''0'') (String_nat h) @ '':00'') =
   instant_at tz (d @ ''T'' @ padStart 2 (CHR ''0'') (String_nat h) @ '':00'')"
  using Date_getTime_boundary [of "CHR ''0''" tz d h "CHR ''0''"] by simp

lemma Date_getTime_end: 
  "Date_getTime tz (d @ ''T'' @ padStart 2 (CHR ''0'') (String_nat h) @ '':59'') =
   instant_at tz (d @ ''T'' @ padStart 2 (CHR ''0'') (String_nat h) @ '':59'')"
  using Date_getTime_boundary [of "CHR ''9''" tz d h "CHR ''5''"] by simp

text \<open>Values of \<open>Date\<close> at the strings of the examples.\<close>

lemmas date_eval =
  Date_getTime_def Date_parse_iso_def Date_parse_legacy_def split_zone_def parse_body_def
  parse_date_def parse_time_def number_def digit_def time_of_day_def days_from_civil_def
  days_in_month_def

lemma getTime_0300_Z: "Date_getTime tz ''2024-10-05T03:00:00Z'' = Some 1728097200000"
  by (simp add: date_eval)

lemma getTime_2000_Z: "Date_getTime tz ''2024-10-05T20:00:00Z'' = Some 1728158400000"
  by (simp add: date_eval)

lemma getTime_0300: "Date_getTime tz ''2024-10-05T03:00:00'' = Some (1728097200000 - tz * 60000)"
  by (simp add: date_eval)

lemma getTime_2000: "Date_getTime tz ''2024-10-05T20:00:00'' = Some (1728158400000 - tz * 60000)"
  by (simp add: date_eval)

lemma naive_0300: "naive_datetime ''2024-10-05T03:00:00''"
  by (simp add: naive_datetime_def instant_at_def date_eval)

lemma naive_2000: "naive_datetime ''2024-10-05T20:00:00''"
  by (simp add: naive_datetime_def instant_at_def date_eval)

lemma pad_00: "padStart 2 (CHR ''0'') (String_nat 0) = ''00''"
  by (simp add: String_nat.simps padStart_def digit_char_def)

lemma pad_23: "padStart 2 (CHR ''0'') (String_nat 23) = ''23''"
  by (simp add: String_nat.simps padStart_def digit_char_def)

lemma instant_at_1005_0000: "instant_at off ''2024-10-05T00:00'' = Some (1728086400000 - off * 60000)"
  by (simp add: instant_at_def date_eval)

lemma instant_at_1005_2359: "instant_at off ''2024-10-05T23:59'' = Some (1728172740000 - off * 60000)"
  by (simp add: instant_at_def date_eval)

lemma instant_at_1006_0000: "instant_at off ''2024-10-06T00:00'' = Some (1728172800000 - off * 60000)"
  by (simp add: instant_at_def date_eval)

lemma instant_at_1005_000000: "instant_at off ''2024-10-05T00:00:00'' = Some (1728086400000 - off * 60000)"
  by (simp add: instant_at_def date_eval)

lemma instant_at_1005_235959: "instant_at off ''2024-10-05T23:59:59'' = Some (1728172799000 - off * 60000)"
  by (simp add: instant_at_def date_eval)

lemma getTime_235959_plus9: "Date_getTime tz ''2024-10-05T23:59:59+09:00'' = Some 1728140399000"
  by (simp add: date_eval)

lemma format_0300: "Intl_format_Tokyo 1728097200000 = ''2024/10/05 12:00:00''"
  unfolding Intl_format_Tokyo_def civil_from_days_def Let_def
  by (simp add: String_nat.simps digit_char_def padStart_def)

lemma format_2000: "Intl_format_Tokyo 1728158400000 = ''2024/10/06 05:00:00''"
  unfolding Intl_format_Tokyo_def civil_from_days_def Let_def
  by (simp add: String_nat.simps digit_char_def padStart_def)

lemma getTime_formatted_1200: "Date_getTime tz ''2024/10/05 12:00:00'' = Some (1728129600000 - tz * 60000)"
  by (simp add: date_eval)

lemma getTime_formatted_0500: "Date_getTime tz ''2024/10/06 05:00:00'' = Some (1728190800000 - tz * 60000)"
  by (simp add: date_eval)

lemma formatDateToJST_0300: "formatDateToJST tz ''2024-10-05T03:00:00'' = Inr ''2024/10/05 12:00:00''"
  by (simp add: formatDateToJST_def getTime_0300_Z format_0300)

lemma formatDateToJST_2000: "formatDateToJST tz ''2024-10-05T20:00:00'' = Inr ''2024/10/06 05:00:00''"
  by (simp add: formatDateToJST_def getTime_2000_Z format_2000)

lemma getTime_1600_Z: "Date_getTime tz ''2024-10-04T16:00:00Z'' = Some 1728057600000"
  by (simp add: date_eval)

lemma getTime_1600: "Date_getTime tz ''2024-10-04T16:00:00'' = Some (1728057600000 - tz * 60000)"
  by (simp add: date_eval)

lemma getTime_000000_plus9: "Date_getTime tz ''2024-10-05T00:00:00+09:00'' = Some 1728054000000"
  by (simp add: date_eval)

section \<open>Properties of the sort\<close>

lemma set_sort_insert: "set (sort_insert comparefn x ys) = insert x (set ys)"
  by (induction ys) auto

lemma mset_sort_insert: "mset (sort_insert comparefn x ys) = add_mset x (mset ys)"
  by (induction ys) auto

lemma mset_Array_sort: "mset (Array_sort comparefn xs) = mset xs"
  by (induction xs) (simp_all add: Array_sort_def mset_sort_insert)

lemma set_Array_sort: "set (Array_sort comparefn xs) = set xs"
  by (metis mset_Array_sort set_mset_mset)

lemma sorted_sort_insert:
  assumes "sorted (map k ys)" and "\<forall>y\<in>set ys. comparefn x y = Some (k x - k y)"
  shows "sorted (map k (sort_insert comparefn x ys))"
  using assms
proof (induction ys)
  case Nil
  then show ?case by simp
next
  case (Cons y ys)
  show ?case
  proof (cases "js_positive (comparefn x y)")
    case True
    with Cons.prems have "k y \<le> k x"
      by (simp add: js_positive_def)
    moreover have "sorted (map k (sort_insert comparefn x ys))"
      using Cons by simp
    ultimately show ?thesis
      using True Cons.prems(1) by (auto simp: set_sort_insert)
  next
    case False
    with Cons.prems have "k x \<le> k y"
      by (simp add: js_positive_def)
    with False Cons.prems(1) show ?thesis
      by auto
  qed
qed

lemma sorted_Array_sort:
  assumes "\<forall>x\<in>set xs. \<forall>y\<in>set xs. comparefn x y = Some (k x - k y)"
  shows "sorted (map k (Array_sort comparefn xs))"
proof -
  have "set ys \<subseteq> set xs \<Longrightarrow> sorted (map k (foldr (sort_insert comparefn) ys []))" for ys
  proof (induction ys)
    case Nil
    then show ?case by simp
  next
    case (Cons y ys)
    have "set (foldr (sort_insert comparefn) ys []) = set ys"
      using set_Array_sort [of comparefn ys] by (simp add: Array_sort_def)
    with Cons.prems assms
    have "\<forall>z\<in>set (foldr (sort_insert comparefn) ys []). comparefn y z = Some (k y - k z)"
      by auto
    with Cons show ?case
      by (simp add: sorted_sort_insert)
  qed
  then show ?thesis by (simp add: Array_sort_def)
qed

lemma sorted_wrt_js_le:
  assumes "sorted (map k xs)" and "\<forall>x\<in>set xs. f x = Some (k x)"
  shows "sorted_wrt (\<lambda>a b. js_le (f a) (f b)) xs"
proof -
  from assms(1) have "sorted_wrt (\<lambda>a b. k a \<le> k b) xs"
    by (simp add: sorted_map)
  then show ?thesis
    by (rule sorted_wrt_mono_rel [rotated]) (simp add: assms(2) js_le_def)
qed

lemma compare_created_at_valid:
  assumes "Date_getTime tz (created_at a) = Some x" "Date_getTime tz (created_at b) = Some y"
  shows "compare_created_at tz a b = Some (x - y)"
  using assms by (simp add: compare_created_at_def js_minus_def)

lemma sorted_by_getTime:
  assumes "\<forall>r\<in>set d. Date_getTime tz (created_at r) \<noteq> None"
  shows "sorted_wrt (\<lambda>a b. js_le (Date_getTime tz (created_at a)) (Date_getTime tz (created_at b)))
           (Array_sort (compare_created_at tz) d)"
proof -
  let ?k = "\<lambda>r. the (Date_getTime tz (created_at r))"
  have "compare_created_at tz x y = Some (?k x - ?k y)" if "x \<in> set d" "y \<in> set d" for x y
  proof -
    from assms that obtain a b where
      "Date_getTime tz (created_at x) = Some a" "Date_getTime tz (created_at y) = Some b"
      by (meson not_None_eq)
    then show ?thesis
      by (simp add: compare_created_at_def js_minus_def)
  qed
  then have "\<forall>x\<in>set d. \<forall>y\<in>set d. compare_created_at tz x y = Some (?k x - ?k y)"
    by blast
  then have "sorted (map ?k (Array_sort (compare_created_at tz) d))"
    by (rule sorted_Array_sort)
  moreover have "\<forall>r\<in>set (Array_sort (compare_created_at tz) d).
      Date_getTime tz (created_at r) = Some (?k r)"
    using assms by (simp add: set_Array_sort)
  ultimately show ?thesis
    by (rule sorted_wrt_js_le)
qed

lemma naive_datetime_times:
  assumes "naive_datetime s"
  obtains t where "Date_getTime tz s = Some (t - tz * 60000)" "Date_getTime tz (s @ ''Z'') = Some t"
proof -
  from assms obtain t where t: "instant_at 0 s = Some t" and z: "split_zone s = Some (s, ZNone)"
    by (auto simp: naive_datetime_def)
  show ?thesis
    using that [of t] Date_getTime_naive [OF z t] Date_getTime_Z [OF t] by simp
qed

lemma sorted_by_utc:
  assumes "\<forall>r\<in>set d. naive_datetime (created_at r)"
  shows "sorted_wrt (\<lambda>a b. js_le (Date_getTime tz (created_at a @ ''Z''))
                              (Date_getTime tz (created_at b @ ''Z'')))
           (Array_sort (compare_created_at tz) d)"
proof -
  let ?k = "\<lambda>r. the (Date_getTime tz (created_at r @ ''Z''))"
  have "compare_created_at tz x y = Some (?k x - ?k y)" if "x \<in> set d" "y \<in> set d" for x y
  proof -
    from assms that have "naive_datetime (created_at x)" "naive_datetime (created_at y)"
      by simp_all
    then obtain a b where
      "Date_getTime tz (created_at x) = Some (a - tz * 60000)"
      "Date_getTime tz (created_at x @ ''Z'') = Some a"
      "Date_getTime tz (created_at y) = Some (b - tz * 60000)"
      "Date_getTime tz (created_at y @ ''Z'') = Some b"
      by (metis naive_datetime_times)
    then show ?thesis
      by (simp add: compare_created_at_def js_minus_def)
  qed
  then have "\<forall>x\<in>set d. \<forall>y\<in>set d. compare_created_at tz x y = Some (?k x - ?k y)"
    by blast
  then have "sorted (map ?k (Array_sort (compare_created_at tz) d))"
    by (rule sorted_Array_sort)
  moreover have "Date_getTime tz (created_at r @ ''Z'') = Some (?k r)"
    if "r \<in> set (Array_sort (compare_created_at tz) d)" for r
  proof -
    from that assms have "naive_datetime (created_at r)"
      by (simp add: set_Array_sort)
    then obtain a where "Date_getTime tz (created_at r @ ''Z'') = Some a"
      by (metis naive_datetime_times)
    then show ?thesis by simp
  qed
  ultimately show ?thesis
    by (intro sorted_wrt_js_le ballI)
qed


text \<open>
  C5, as the code has it. After a successful fetch the live views hold the records of the
  payload (the same records, as a multiset) sorted ascending by the value of
  \<open>new Date(created_at).getTime()\<close>, provided every \<open>created_at\<close> can be read; when the
  timestamps are timezone-naive, that is the ascending order of the timestamps read as UTC.
  The totals views store the records in the order of the payload.
\<close>

theorem post_fetch_ordering:
  fixes s :: "'a view_state_scheme" and f :: "'b filter_state_scheme"
  assumes "fetch_try outcome = Inr d"
  shows
  "mset (scoreData (Home_fetchData tz s outcome)) = mset d \<and>
   ((\<forall>r\<in>set d. Date_getTime tz (created_at r) \<noteq> None) \<longrightarrow>
      sorted_wrt (\<lambda>a b. js_le (Date_getTime tz (created_at a)) (Date_getTime tz (created_at b)))
        (scoreData (Home_fetchData tz s outcome))) \<and>
   ((\<forall>r\<in>set d. naive_datetime (created_at r)) \<longrightarrow>
      sorted_wrt (\<lambda>a b. js_le (Date_getTime tz (created_at a @ ''Z''))
                             (Date_getTime tz (created_at b @ ''Z'')))
        (scoreData (Home_fetchData tz s outcome))) \<and>
   scoreData (TotalScore_fetchData s outcome) = d \<and>
   scoreData (Filtered_fetchData f outcome) = d"
  using assms
  by (simp add: Home_fetchData_def TotalScore_fetchData_def Filtered_fetchData_def
        mset_Array_sort sorted_by_getTime sorted_by_utc)

theorem post_fetch_ordering_witness:
  "fetch_try (Fulfilled \<lparr>ok = True, json = Fulfilled
         \<lparr>data = [\<lparr>created_at = ''2024-10-05T20:00:00'', rec_id = 2, score = - 5\<rparr>,
                  \<lparr>created_at = ''2024-10-05T03:00:00'', rec_id = 1, score = 10\<rparr>],
          status = ''OK''\<rparr>\<rparr>) =
     Inr [\<lparr>created_at = ''2024-10-05T20:00:00'', rec_id = 2, score = - 5\<rparr>,
          \<lparr>created_at = ''2024-10-05T03:00:00'', rec_id = 1, score = 10\<rparr>] \<and>
   naive_datetime ''2024-10-05T20:00:00'' \<and> naive_datetime ''2024-10-05T03:00:00'' \<and>
   scoreData (Home_fetchData 540 initial_view
      (Fulfilled \<lparr>ok = True, json = Fulfilled
         \<lparr>data = [\<lparr>created_at = ''2024-10-05T20:00:00'', rec_id = 2, score = - 5\<rparr>,
                  \<lparr>created_at = ''2024-10-05T03:00:00'', rec_id = 1, score = 10\<rparr>],
          status = ''OK''\<rparr>\<rparr>)) =
     [\<lparr>created_at = ''2024-10-05T03:00:00'', rec_id = 1, score = 10\<rparr>,
      \<lparr>created_at = ''2024-10-05T20:00:00'', rec_id = 2, score = - 5\<rparr>] \<and>
   js_le (Date_getTime 540 (''2024-10-05T03:00:00'' @ ''Z''))
         (Date_getTime 540 (''2024-10-05T20:00:00'' @ ''Z''))"
  using post_fetch_ordering [where s = initial_view and tz = 540
      and f = "\<lparr>scoreData = [], loading = True, error = None, filteredData = [],
                startDate = ''2024-10-05'', endDate = ''2024-10-05''\<rparr>"
      and d = "[\<lparr>created_at = ''2024-10-05T20:00:00'', rec_id = 2, score = - 5\<rparr>,
                \<lparr>created_at = ''2024-10-05T03:00:00'', rec_id = 1, score = 10\<rparr>]"
      and outcome = "Fulfilled \<lparr>ok = True, json = Fulfilled
         \<lparr>data = [\<lparr>created_at = ''2024-10-05T20:00:00'', rec_id = 2, score = - 5\<rparr>,
                  \<lparr>created_at = ''2024-10-05T03:00:00'', rec_id = 1, score = 10\<rparr>],
          status = ''OK''\<rparr>\<rparr>"]
  by (simp add: fetch_try_def Home_fetchData_def Array_sort_def compare_created_at_def
        js_minus_def js_positive_def getTime_0300 getTime_2000 getTime_0300_Z getTime_2000_Z
        js_le_def naive_0300 naive_2000)

text \<open>
  C5 as stated fails for the totals views: \<open>total/page.tsx\<close> stores a payload whose later
  record comes first as it is.
\<close>

theorem post_fetch_ordering_counterexample:
  "scoreData (Filtered_fetchData
      \<lparr>scoreData = [], loading = True, error = None, filteredData = [],
       startDate = ''2024-10-05'', endDate = ''2024-10-05'', timeRange = (0, 23)\<rparr>
      (Fulfilled \<lparr>ok = True, json = Fulfilled
         \<lparr>data = [\<lparr>created_at = ''2024-10-05T20:00:00'', rec_id = 2, score = - 5\<rparr>,
                  \<lparr>created_at = ''2024-10-05T03:00:00'', rec_id = 1, score = 10\<rparr>],
          status = ''OK''\<rparr>\<rparr>)) =
     [\<lparr>created_at = ''2024-10-05T20:00:00'', rec_id = 2, score = - 5\<rparr>,
      \<lparr>created_at = ''2024-10-05T03:00:00'', rec_id = 1, score = 10\<rparr>] \<and>
   \<not> js_le (Date_getTime 540 ''2024-10-05T20:00:00'') (Date_getTime 540 ''2024-10-05T03:00:00'') \<and>
   \<not> js_le (Date_getTime 540 (''2024-10-05T20:00:00'' @ ''Z''))
             (Date_getTime 540 (''2024-10-05T03:00:00'' @ ''Z''))"
  by (simp add: Filtered_fetchData_def fetch_try_def getTime_0300 getTime_2000
        getTime_0300_Z getTime_2000_Z js_le_def)

section \<open>Properties of a fetch cycle and of the render guards\<close>

lemma msgs_distinct: "msg_fetch_failed \<noteq> msg_bad_status"
  by (simp add: msg_fetch_failed_def msg_bad_status_def)

lemma msg_fetch_failed_nonempty: "msg_fetch_failed \<noteq> []"
  by (simp add: msg_fetch_failed_def)

lemma msg_bad_status_nonempty: "msg_bad_status \<noteq> []"
  by (simp add: msg_bad_status_def)

subsection \<open>One cycle\<close>

lemma Home_fetchData_Inl:
  "fetch_try outcome = Inl err \<Longrightarrow>
   Home_fetchData tz s outcome = s\<lparr>error := Some (catch_message err), loading := False\<rparr>"
  by (simp add: Home_fetchData_def)

lemma Home_fetchData_Inr:
  "fetch_try outcome = Inr d \<Longrightarrow>
   Home_fetchData tz s outcome =
     s\<lparr>scoreData := Array_sort (compare_created_at tz) d, loading := False\<rparr>"
  by (simp add: Home_fetchData_def)

lemma Filtered_fetchData_Inl:
  "fetch_try outcome = Inl err \<Longrightarrow>
   Filtered_fetchData s outcome = s\<lparr>error := Some (catch_message err), loading := False\<rparr>"
  by (simp add: Filtered_fetchData_def)

lemma Filtered_fetchData_Inr:
  "fetch_try outcome = Inr d \<Longrightarrow>
   Filtered_fetchData s outcome = s\<lparr>scoreData := d, filteredData := d, loading := False\<rparr>"
  by (simp add: Filtered_fetchData_def)

lemma Home_not_loading: "\<not> loading (Home_fetchData tz s outcome)"
  by (simp add: Home_fetchData_def split: sum.splits)

lemma Filtered_not_loading: "\<not> loading (Filtered_fetchData s outcome)"
  by (simp add: Filtered_fetchData_def split: sum.splits)

lemma Home_run_not_loading:
  "\<not> loading s \<Longrightarrow> \<not> loading (foldl (Home_fetchData tz) s os)"
  by (induction os arbitrary: s) (simp_all add: Home_not_loading)

lemma Filtered_run_not_loading:
  "\<not> loading s \<Longrightarrow> \<not> loading (foldl Filtered_fetchData s os)"
  by (induction os arbitrary: s) (simp_all add: Filtered_not_loading)

lemma Home_error_kept: "error s \<noteq> None \<Longrightarrow> error (Home_fetchData tz s outcome) \<noteq> None"
  by (simp add: Home_fetchData_def split: sum.splits)

lemma Filtered_error_kept: "error s \<noteq> None \<Longrightarrow> error (Filtered_fetchData s outcome) \<noteq> None"
  by (simp add: Filtered_fetchData_def split: sum.splits)

lemma Home_run_error_kept:
  "error s \<noteq> None \<Longrightarrow> error (foldl (Home_fetchData tz) s os) \<noteq> None"
proof (induction os arbitrary: s)
  case Nil
  then show ?case by simp
next
  case (Cons a os)
  have "error (foldl (Home_fetchData tz) (Home_fetchData tz s a) os) \<noteq> None"
    by (rule Cons.IH) (rule Home_error_kept, rule Cons.prems)
  then show ?case by simp
qed

lemma Filtered_run_error_kept:
  "error s \<noteq> None \<Longrightarrow> error (foldl Filtered_fetchData s os) \<noteq> None"
proof (induction os arbitrary: s)
  case Nil
  then show ?case by simp
next
  case (Cons a os)
  have "error (foldl Filtered_fetchData (Filtered_fetchData s a) os) \<noteq> None"
    by (rule Cons.IH) (rule Filtered_error_kept, rule Cons.prems)
  then show ?case by simp
qed


lemma Home_error_shown:
  "\<exists>m. error s = Some m \<and> m \<noteq> [] \<Longrightarrow> (\<forall>e. fetch_try outcome = Inl e \<longrightarrow> catch_message e \<noteq> []) \<Longrightarrow>
   (\<exists>m. error (Home_fetchData tz s outcome) = Some m \<and> m \<noteq> [])"
  by (cases "fetch_try outcome") (auto simp: Home_fetchData_def)

lemma Filtered_error_shown:
  "\<exists>m. error s = Some m \<and> m \<noteq> [] \<Longrightarrow> (\<forall>e. fetch_try outcome = Inl e \<longrightarrow> catch_message e \<noteq> []) \<Longrightarrow>
   (\<exists>m. error (Filtered_fetchData s outcome) = Some m \<and> m \<noteq> [])"
  by (cases "fetch_try outcome") (auto simp: Filtered_fetchData_def)

lemma Home_run_error_shown:
  "\<exists>m. error s = Some m \<and> m \<noteq> [] \<Longrightarrow> (\<forall>outcome\<in>set os. \<forall>e. fetch_try outcome = Inl e \<longrightarrow> catch_message e \<noteq> []) \<Longrightarrow>
   (\<exists>m. error (foldl (Home_fetchData tz) s os) = Some m \<and> m \<noteq> [])"
  by (induction os arbitrary: s) (simp_all add: Home_error_shown)

lemma Filtered_run_error_shown:
  "\<exists>m. error s = Some m \<and> m \<noteq> [] \<Longrightarrow> (\<forall>outcome\<in>set os. \<forall>e. fetch_try outcome = Inl e \<longrightarrow> catch_message e \<noteq> []) \<Longrightarrow>
   (\<exists>m. error (foldl Filtered_fetchData s os) = Some m \<and> m \<noteq> [])"
  by (induction os arbitrary: s) (simp_all add: Filtered_error_shown)

lemma render_error_shown:
  "\<exists>m. error s = Some m \<and> m \<noteq> [] \<Longrightarrow> \<not> loading s \<Longrightarrow> \<exists>m. render s = ErrorScreen m"
  by (auto simp: render_def)

lemma render_Loading: "render s = LoadingScreen \<longleftrightarrow> loading s \<and> scoreData s = []"
  by (auto simp: render_def split: option.splits)

lemma Home_run_snoc_not_loading:
  "os \<noteq> [] \<Longrightarrow> \<not> loading (foldl (Home_fetchData tz) s os)"
  by (cases os) (simp_all add: Home_run_not_loading Home_not_loading)

lemma Filtered_run_snoc_not_loading:
  "os \<noteq> [] \<Longrightarrow> \<not> loading (foldl Filtered_fetchData s os)"
  by (cases os) (simp_all add: Filtered_run_not_loading Filtered_not_loading)

lemma render_not_loading: "\<not> loading s \<Longrightarrow> render s \<noteq> LoadingScreen"
  by (simp add: render_Loading)

lemma render_after_failure:
  "\<not> loading s \<Longrightarrow> error s = Some m \<Longrightarrow> m \<noteq> [] \<Longrightarrow> render s = ErrorScreen m"
  by (simp add: render_def)

text \<open>
  C6. A cycle replaces the record set exactly when \<open>fetch\<close> is fulfilled with a response
  whose \<open>ok\<close> is true and whose payload has the status \<open>OK\<close>: then the records of the
  payload are stored (sorted, in the live view). In every other case the record set stays
  and \<open>error\<close> is set. A response that is not \<open>ok\<close> and a status other than \<open>OK\<close> set two
  different messages. (When \<open>fetch\<close> or \<open>json\<close> throws, the message is the one of the thrown
  value.)
\<close>

theorem fetch_success_condition:
  fixes s :: "'a view_state_scheme" and f :: "'b filter_state_scheme"
  shows
  "((\<exists>response result. outcome = Fulfilled response \<and> ok response \<and>
        json response = Fulfilled result \<and> status result = ''OK'' \<and> data result = d) \<longrightarrow>
      Home_fetchData tz s outcome =
        s\<lparr>scoreData := Array_sort (compare_created_at tz) d, loading := False\<rparr> \<and>
      Filtered_fetchData f outcome = f\<lparr>scoreData := d, filteredData := d, loading := False\<rparr>) \<and>
   (\<not> (\<exists>response result. outcome = Fulfilled response \<and> ok response \<and>
        json response = Fulfilled result \<and> status result = ''OK'') \<longrightarrow>
      scoreData (Home_fetchData tz s outcome) = scoreData s \<and>
      error (Home_fetchData tz s outcome) \<noteq> None \<and>
      scoreData (Filtered_fetchData f outcome) = scoreData f \<and>
      filteredData (Filtered_fetchData f outcome) = filteredData f \<and>
      error (Filtered_fetchData f outcome) \<noteq> None) \<and>
   (\<forall>response. outcome = Fulfilled response \<and> \<not> ok response \<longrightarrow>
      error (Home_fetchData tz s outcome) = Some msg_fetch_failed \<and>
      error (Filtered_fetchData f outcome) = Some msg_fetch_failed) \<and>
   (\<forall>response result. outcome = Fulfilled response \<and> ok response \<and>
        json response = Fulfilled result \<and> status result \<noteq> ''OK'' \<longrightarrow>
      error (Home_fetchData tz s outcome) = Some msg_bad_status \<and>
      error (Filtered_fetchData f outcome) = Some msg_bad_status) \<and>
   msg_fetch_failed \<noteq> msg_bad_status"
proof (intro conjI impI allI)
  show "msg_fetch_failed \<noteq> msg_bad_status" by (rule msgs_distinct)
qed (auto simp: Home_fetchData_def Filtered_fetchData_def fetch_try_def catch_message_def
          split: settled.splits sum.splits)

theorem fetch_success_condition_witness:
  "Home_fetchData 540 initial_view
      (Fulfilled \<lparr>ok = True, json = Fulfilled
         \<lparr>data = [\<lparr>created_at = ''2024-10-05T01:00:00'', rec_id = 1, score = 10\<rparr>],
          status = ''OK''\<rparr>\<rparr>) =
     \<lparr>scoreData = [\<lparr>created_at = ''2024-10-05T01:00:00'', rec_id = 1, score = 10\<rparr>],
      loading = False, error = None\<rparr> \<and>
   error (Home_fetchData 540 initial_view (Fulfilled \<lparr>ok = False, json = Rejected NonError\<rparr>)) =
     Some msg_fetch_failed \<and>
   error (Home_fetchData 540 initial_view
      (Fulfilled \<lparr>ok = True, json = Fulfilled \<lparr>data = [], status = ''ERROR''\<rparr>\<rparr>)) =
     Some msg_bad_status \<and>
   scoreData (Filtered_fetchData
       \<lparr>scoreData = [], loading = True, error = None, filteredData = [],
        startDate = ''2024-10-05'', endDate = ''2024-10-05''\<rparr>
       (Rejected (JsError ''Failed to fetch''))) = []"
  using
    fetch_success_condition [where s = initial_view and tz = 540
      and f = "\<lparr>scoreData = [], loading = True, error = None, filteredData = [],
                startDate = ''2024-10-05'', endDate = ''2024-10-05''\<rparr>"
      and d = "[\<lparr>created_at = ''2024-10-05T01:00:00'', rec_id = 1, score = 10\<rparr>]"
      and outcome = "Fulfilled \<lparr>ok = True, json = Fulfilled
         \<lparr>data = [\<lparr>created_at = ''2024-10-05T01:00:00'', rec_id = 1, score = 10\<rparr>],
          status = ''OK''\<rparr>\<rparr>"]
    fetch_success_condition [where s = initial_view and tz = 540
      and f = "\<lparr>scoreData = [], loading = True, error = None, filteredData = [],
                startDate = ''2024-10-05'', endDate = ''2024-10-05''\<rparr>"
      and d = "[]"
      and outcome = "Fulfilled \<lparr>ok = False, json = Rejected NonError\<rparr>"]
    fetch_success_condition [where s = initial_view and tz = 540
      and f = "\<lparr>scoreData = [], loading = True, error = None, filteredData = [],
                startDate = ''2024-10-05'', endDate = ''2024-10-05''\<rparr>"
      and d = "[]"
      and outcome = "Fulfilled \<lparr>ok = True, json = Fulfilled \<lparr>data = [], status = ''ERROR''\<rparr>\<rparr>"]
    fetch_success_condition [where s = initial_view and tz = 540
      and f = "\<lparr>scoreData = [], loading = True, error = None, filteredData = [],
                startDate = ''2024-10-05'', endDate = ''2024-10-05''\<rparr>"
      and d = "[]"
      and outcome = "Rejected (JsError ''Failed to fetch'')"]
  by (simp add: initial_view_def Array_sort_def)

lemma msg_unknown_nonempty: "msg_unknown \<noteq> []"
  by (simp add: msg_unknown_def)

lemma catch_message_nonempty:
  assumes "fetch_try outcome = Inl e"
    and "\<forall>m. outcome = Rejected (JsError m) \<or>
             (\<exists>response. outcome = Fulfilled response \<and> ok response \<and>
                 json response = Rejected (JsError m)) \<longrightarrow> m \<noteq> []"
  shows "catch_message e \<noteq> []"
proof (cases e)
  case NonError
  then show ?thesis
    by (simp add: catch_message_def msg_unknown_nonempty)
next
  case (JsError m)
  show ?thesis
  proof (cases outcome)
    case (Rejected err)
    with assms JsError show ?thesis
      by (simp add: fetch_try_def catch_message_def)
  next
    case (Fulfilled response)
    show ?thesis
    proof (cases "ok response")
      case False
      with Fulfilled assms(1) JsError show ?thesis
        by (simp add: fetch_try_def catch_message_def msg_fetch_failed_nonempty)
    next
      case True
      show ?thesis
      proof (cases "json response")
        case (Rejected err)
        with True Fulfilled assms JsError show ?thesis
          by (simp add: fetch_try_def catch_message_def)
      next
        case inner: (Fulfilled result)
        with True Fulfilled assms(1) JsError show ?thesis
          by (auto simp: fetch_try_def catch_message_def msg_bad_status_nonempty split: if_splits)
      qed
    qed
  qed
qed

subsection \<open>Rendering\<close>

lemma map_throwing_total:
  "\<forall>x\<in>set xs. g x = Inr (h x) \<Longrightarrow> map_throwing g xs = Inr (map h xs)"
  by (induction xs) simp_all

lemma Home_render_Inr: "Home_render tz s = Inr v \<Longrightarrow> render s = v"
  by (auto simp: Home_render_def split: sum.splits)

lemma Home_render_readable:
  assumes "\<forall>r\<in>set (scoreData s). Date_getTime tz (created_at r @ ''Z'') \<noteq> None"
  shows "Home_render tz s = Inr (render s)"
proof -
  have "\<forall>r\<in>set (scoreData s). formatDateToJST tz (created_at r) =
          Inr (Intl_format_Tokyo (the (Date_getTime tz (created_at r @ ''Z''))))"
    using assms by (auto simp: formatDateToJST_def)
  then have "map_throwing (\<lambda>item. formatDateToJST tz (created_at item)) (scoreData s) =
      Inr (map (\<lambda>r. Intl_format_Tokyo (the (Date_getTime tz (created_at r @ ''Z'')))) (scoreData s))"
    by (rule map_throwing_total)
  then show ?thesis
    by (simp add: Home_render_def)
qed

lemma render_failed:
  "render (s\<lparr>error := Some m, loading := False\<rparr>) = (if m = [] then MainScreen else ErrorScreen m)"
  by (simp add: render_def)

lemma getTime_garbage_Z: "Date_getTime tz ''garbageZ'' = None"
  by (simp add: date_eval)

lemma formatDateToJST_garbage: "formatDateToJST tz ''garbage'' = Inl RangeError"
  by (simp add: formatDateToJST_def getTime_garbage_Z)

text \<open>
  C4, as the code has it. The loading text is rendered only while \<open>loading\<close> is still true
  and the record set is empty, so only before the first cycle ends, and never after a fetch
  that succeeded. A failed fetch leaves the stored record set as it was, but the records are
  no longer shown: the view is the error text in place of the charts, for the two messages
  that the code throws itself (response not \<open>ok\<close>, status other than \<open>OK\<close>) and for every
  thrown error whose message is not empty (with an empty message, which \<open>if (error)\<close> takes
  for false, the view stays). In the live views with Japan-time labels the labels are
  formatted in front of the guards, so there this needs every stored \<open>created_at\<close> to be
  readable.
\<close>

theorem error_display_policy:
  fixes s :: "'a view_state_scheme" and f :: "'b filter_state_scheme"
  shows
  "(Home_render tz s = Inr LoadingScreen \<longrightarrow> loading s \<and> scoreData s = []) \<and>
   (render f = LoadingScreen \<longrightarrow> loading f \<and> scoreData f = []) \<and>
   (os \<noteq> [] \<longrightarrow> Home_render tz (foldl (Home_fetchData tz) s os) \<noteq> Inr LoadingScreen \<and>
                render (foldl Filtered_fetchData f os) \<noteq> LoadingScreen) \<and>
   (\<forall>err. fetch_try outcome = Inl err \<longrightarrow>
      scoreData (Home_fetchData tz s outcome) = scoreData s \<and>
      scoreData (Filtered_fetchData f outcome) = scoreData f \<and>
      filteredData (Filtered_fetchData f outcome) = filteredData f \<and>
      render (Filtered_fetchData f outcome) =
        (if catch_message err = [] then MainScreen else ErrorScreen (catch_message err)) \<and>
      ((\<forall>r\<in>set (scoreData s). Date_getTime tz (created_at r @ ''Z'') \<noteq> None) \<longrightarrow>
         Home_render tz (Home_fetchData tz s outcome) =
           Inr (if catch_message err = [] then MainScreen else ErrorScreen (catch_message err)))) \<and>
   (\<forall>response. outcome = Fulfilled response \<and>
        (\<not> ok response \<or>
         (\<exists>result. json response = Fulfilled result \<and> status result \<noteq> ''OK'')) \<longrightarrow>
      scoreData (Home_fetchData tz s outcome) = scoreData s \<and>
      scoreData (Filtered_fetchData f outcome) = scoreData f \<and>
      (\<exists>m. m \<noteq> [] \<and> render (Filtered_fetchData f outcome) = ErrorScreen m \<and>
         ((\<forall>r\<in>set (scoreData s). Date_getTime tz (created_at r @ ''Z'') \<noteq> None) \<longrightarrow>
            Home_render tz (Home_fetchData tz s outcome) = Inr (ErrorScreen m))))"
proof (intro conjI impI allI)
  show "loading s" if "Home_render tz s = Inr LoadingScreen"
    using Home_render_Inr [OF that] by (simp add: render_Loading)
  show "scoreData s = []" if "Home_render tz s = Inr LoadingScreen"
    using Home_render_Inr [OF that] by (simp add: render_Loading)
  show "loading f" if "render f = LoadingScreen"
    using that by (simp add: render_Loading)
  show "scoreData f = []" if "render f = LoadingScreen"
    using that by (simp add: render_Loading)
  show "Home_render tz (foldl (Home_fetchData tz) s os) \<noteq> Inr LoadingScreen" if "os \<noteq> []"
  proof
    assume "Home_render tz (foldl (Home_fetchData tz) s os) = Inr LoadingScreen"
    then have "render (foldl (Home_fetchData tz) s os) = LoadingScreen"
      by (simp add: Home_render_Inr)
    then show False
      using render_not_loading [OF Home_run_snoc_not_loading [OF that]] by blast
  qed
  show "render (foldl Filtered_fetchData f os) \<noteq> LoadingScreen" if "os \<noteq> []"
    using that by (intro render_not_loading Filtered_run_snoc_not_loading)
next
  fix err assume t: "fetch_try outcome = Inl err"
  show "scoreData (Home_fetchData tz s outcome) = scoreData s"
    and "scoreData (Filtered_fetchData f outcome) = scoreData f"
    and "filteredData (Filtered_fetchData f outcome) = filteredData f"
    and "render (Filtered_fetchData f outcome) =
        (if catch_message err = [] then MainScreen else ErrorScreen (catch_message err))"
    by (simp_all add: Home_fetchData_Inl [OF t] Filtered_fetchData_Inl [OF t] render_def)
  show "Home_render tz (Home_fetchData tz s outcome) =
           Inr (if catch_message err = [] then MainScreen else ErrorScreen (catch_message err))"
    if "\<forall>r\<in>set (scoreData s). Date_getTime tz (created_at r @ ''Z'') \<noteq> None"
  proof -
    have "Home_render tz (Home_fetchData tz s outcome) = Inr (render (Home_fetchData tz s outcome))"
      by (rule Home_render_readable) (simp add: Home_fetchData_Inl [OF t] that)
    then show ?thesis
      by (simp add: Home_fetchData_Inl [OF t] render_def)
  qed
next
  fix response
  assume a: "outcome = Fulfilled response \<and>
        (\<not> ok response \<or> (\<exists>result. json response = Fulfilled result \<and> status result \<noteq> ''OK''))"
  then obtain m where t: "fetch_try outcome = Inl (JsError m)" and m: "m \<noteq> []"
    by (cases "ok response")
       (auto simp: fetch_try_def msg_fetch_failed_nonempty msg_bad_status_nonempty)
  show "scoreData (Home_fetchData tz s outcome) = scoreData s"
    and "scoreData (Filtered_fetchData f outcome) = scoreData f"
    by (simp_all add: Home_fetchData_Inl [OF t] Filtered_fetchData_Inl [OF t])
  have r: "render (Filtered_fetchData f outcome) = ErrorScreen m"
    using m by (simp add: Filtered_fetchData_Inl [OF t] render_def catch_message_def)
  have h: "Home_render tz (Home_fetchData tz s outcome) = Inr (ErrorScreen m)"
    if "\<forall>r\<in>set (scoreData s). Date_getTime tz (created_at r @ ''Z'') \<noteq> None"
  proof -
    have "Home_render tz (Home_fetchData tz s outcome) = Inr (render (Home_fetchData tz s outcome))"
      by (rule Home_render_readable) (simp add: Home_fetchData_Inl [OF t] that)
    then show ?thesis
      using m by (simp add: Home_fetchData_Inl [OF t] render_def catch_message_def)
  qed
  show "\<exists>m. m \<noteq> [] \<and> render (Filtered_fetchData f outcome) = ErrorScreen m \<and>
         ((\<forall>r\<in>set (scoreData s). Date_getTime tz (created_at r @ ''Z'') \<noteq> None) \<longrightarrow>
            Home_render tz (Home_fetchData tz s outcome) = Inr (ErrorScreen m))"
    using m r h by blast
qed

theorem error_display_policy_witness:
  "[(Fulfilled \<lparr>ok = True, json = Fulfilled \<lparr>data = [], status = ''ERROR''\<rparr>\<rparr>)] \<noteq> [] \<and>
   fetch_try (Fulfilled \<lparr>ok = True, json = Fulfilled \<lparr>data = [], status = ''ERROR''\<rparr>\<rparr>) = Inl (JsError msg_bad_status) \<and>
   Date_getTime 540 (''2024-10-05T03:00:00'' @ ''Z'') \<noteq> None \<and>
   scoreData (Home_fetchData 540 \<lparr>scoreData = [\<lparr>created_at = ''2024-10-05T03:00:00'', rec_id = 1, score = 10\<rparr>], loading = False, error = None\<rparr> (Fulfilled \<lparr>ok = True, json = Fulfilled \<lparr>data = [], status = ''ERROR''\<rparr>\<rparr>)) = [\<lparr>created_at = ''2024-10-05T03:00:00'', rec_id = 1, score = 10\<rparr>] \<and>
   Home_render 540 (Home_fetchData 540 \<lparr>scoreData = [\<lparr>created_at = ''2024-10-05T03:00:00'', rec_id = 1, score = 10\<rparr>], loading = False, error = None\<rparr> (Fulfilled \<lparr>ok = True, json = Fulfilled \<lparr>data = [], status = ''ERROR''\<rparr>\<rparr>)) = Inr (ErrorScreen msg_bad_status) \<and>
   Home_render 540 (foldl (Home_fetchData 540) \<lparr>scoreData = [\<lparr>created_at = ''2024-10-05T03:00:00'', rec_id = 1, score = 10\<rparr>], loading = False, error = None\<rparr> [(Fulfilled \<lparr>ok = True, json = Fulfilled \<lparr>data = [], status = ''ERROR''\<rparr>\<rparr>)]) \<noteq> Inr LoadingScreen \<and>
   scoreData (Filtered_fetchData \<lparr>scoreData = [\<lparr>created_at = ''2024-10-05T03:00:00'', rec_id = 1, score = 10\<rparr>], loading = False, error = None, filteredData = [\<lparr>created_at = ''2024-10-05T03:00:00'', rec_id = 1, score = 10\<rparr>], startDate = ''2024-10-05'', endDate = ''2024-10-05'', timeRange = (0, 23)\<rparr> (Fulfilled \<lparr>ok = True, json = Fulfilled \<lparr>data = [], status = ''ERROR''\<rparr>\<rparr>)) = [\<lparr>created_at = ''2024-10-05T03:00:00'', rec_id = 1, score = 10\<rparr>] \<and>
   render (Filtered_fetchData \<lparr>scoreData = [\<lparr>created_at = ''2024-10-05T03:00:00'', rec_id = 1, score = 10\<rparr>], loading = False, error = None, filteredData = [\<lparr>created_at = ''2024-10-05T03:00:00'', rec_id = 1, score = 10\<rparr>], startDate = ''2024-10-05'', endDate = ''2024-10-05'', timeRange = (0, 23)\<rparr> (Fulfilled \<lparr>ok = True, json = Fulfilled \<lparr>data = [], status = ''ERROR''\<rparr>\<rparr>)) = ErrorScreen msg_bad_status"
  using error_display_policy [where tz = 540 and s = "\<lparr>scoreData = [\<lparr>created_at = ''2024-10-05T03:00:00'', rec_id = 1, score = 10\<rparr>], loading = False, error = None\<rparr>" and f = "\<lparr>scoreData = [\<lparr>created_at = ''2024-10-05T03:00:00'', rec_id = 1, score = 10\<rparr>], loading = False, error = None, filteredData = [\<lparr>created_at = ''2024-10-05T03:00:00'', rec_id = 1, score = 10\<rparr>], startDate = ''2024-10-05'', endDate = ''2024-10-05'', timeRange = (0, 23)\<rparr>"
      and os = "[(Fulfilled \<lparr>ok = True, json = Fulfilled \<lparr>data = [], status = ''ERROR''\<rparr>\<rparr>)]" and outcome = "(Fulfilled \<lparr>ok = True, json = Fulfilled \<lparr>data = [], status = ''ERROR''\<rparr>\<rparr>)"]
  by (simp add: fetch_try_def catch_message_def msg_bad_status_nonempty getTime_0300_Z)

text \<open>
  C4 as stated fails, in the live view and in \<open>total/page.tsx\<close>: after a fetch that
  succeeded (the chart is shown), a fetch with the status \<open>ERROR\<close> keeps the record in
  \<open>scoreData\<close>, and the view is the error text.
\<close>

theorem error_display_counterexample:
  "Home_render 540 (Home_fetchData 540 initial_view (Fulfilled \<lparr>ok = True, json = Fulfilled \<lparr>data = [\<lparr>created_at = ''2024-10-05T03:00:00'', rec_id = 1, score = 10\<rparr>], status = ''OK''\<rparr>\<rparr>)) = Inr MainScreen \<and>
   scoreData (Home_fetchData 540 (Home_fetchData 540 initial_view (Fulfilled \<lparr>ok = True, json = Fulfilled \<lparr>data = [\<lparr>created_at = ''2024-10-05T03:00:00'', rec_id = 1, score = 10\<rparr>], status = ''OK''\<rparr>\<rparr>)) (Fulfilled \<lparr>ok = True, json = Fulfilled \<lparr>data = [], status = ''ERROR''\<rparr>\<rparr>)) = [\<lparr>created_at = ''2024-10-05T03:00:00'', rec_id = 1, score = 10\<rparr>] \<and>
   Home_render 540 (Home_fetchData 540 (Home_fetchData 540 initial_view (Fulfilled \<lparr>ok = True, json = Fulfilled \<lparr>data = [\<lparr>created_at = ''2024-10-05T03:00:00'', rec_id = 1, score = 10\<rparr>], status = ''OK''\<rparr>\<rparr>)) (Fulfilled \<lparr>ok = True, json = Fulfilled \<lparr>data = [], status = ''ERROR''\<rparr>\<rparr>)) =
     Inr (ErrorScreen msg_bad_status) \<and>
   render (Filtered_fetchData \<lparr>scoreData = [], loading = True, error = None, filteredData = [], startDate = ''2024-10-05'', endDate = ''2024-10-05'', timeRange = (0, 23)\<rparr> (Fulfilled \<lparr>ok = True, json = Fulfilled \<lparr>data = [\<lparr>created_at = ''2024-10-05T03:00:00'', rec_id = 1, score = 10\<rparr>], status = ''OK''\<rparr>\<rparr>)) = MainScreen \<and>
   scoreData (Filtered_fetchData (Filtered_fetchData \<lparr>scoreData = [], loading = True, error = None, filteredData = [], startDate = ''2024-10-05'', endDate = ''2024-10-05'', timeRange = (0, 23)\<rparr> (Fulfilled \<lparr>ok = True, json = Fulfilled \<lparr>data = [\<lparr>created_at = ''2024-10-05T03:00:00'', rec_id = 1, score = 10\<rparr>], status = ''OK''\<rparr>\<rparr>)) (Fulfilled \<lparr>ok = True, json = Fulfilled \<lparr>data = [], status = ''ERROR''\<rparr>\<rparr>)) = [\<lparr>created_at = ''2024-10-05T03:00:00'', rec_id = 1, score = 10\<rparr>] \<and>
   render (Filtered_fetchData (Filtered_fetchData \<lparr>scoreData = [], loading = True, error = None, filteredData = [], startDate = ''2024-10-05'', endDate = ''2024-10-05'', timeRange = (0, 23)\<rparr> (Fulfilled \<lparr>ok = True, json = Fulfilled \<lparr>data = [\<lparr>created_at = ''2024-10-05T03:00:00'', rec_id = 1, score = 10\<rparr>], status = ''OK''\<rparr>\<rparr>)) (Fulfilled \<lparr>ok = True, json = Fulfilled \<lparr>data = [], status = ''ERROR''\<rparr>\<rparr>)) =
     ErrorScreen msg_bad_status"
  by (simp add: Home_fetchData_def Filtered_fetchData_def fetch_try_def initial_view_def render_def
        Home_render_def Array_sort_def catch_message_def msg_bad_status_nonempty
        formatDateToJST_0300)

text \<open>
  C10, as the code has it. After a first failed cycle, \<open>error\<close> is never \<open>null\<close> again,
  whatever the later cycles do, and a later cycle that succeeds replaces the record set and
  leaves \<open>error\<close> as it is. Every render after the first failure is the error text provided
  that the errors which \<open>fetch\<close> and \<open>json\<close> themselves throw have non-empty messages and, in
  the live views with Japan-time labels, that every stored \<open>created_at\<close> is readable.
\<close>

theorem sticky_error:
  fixes s :: "'a view_state_scheme" and f :: "'b filter_state_scheme"
  assumes "fetch_try first = Inl err"
  shows
  "error (foldl (Home_fetchData tz) (Home_fetchData tz s first) os) \<noteq> None \<and>
   error (foldl Filtered_fetchData (Filtered_fetchData f first) os) \<noteq> None \<and>
   ((\<forall>outcome\<in>set (first # os). \<forall>m.
       outcome = Rejected (JsError m) \<or>
       (\<exists>response. outcome = Fulfilled response \<and> ok response \<and>
           json response = Rejected (JsError m)) \<longrightarrow> m \<noteq> []) \<longrightarrow>
      (\<exists>m. render (foldl Filtered_fetchData (Filtered_fetchData f first) os) = ErrorScreen m) \<and>
      ((\<forall>r\<in>set (scoreData (foldl (Home_fetchData tz) (Home_fetchData tz s first) os)).
           Date_getTime tz (created_at r @ ''Z'') \<noteq> None) \<longrightarrow>
         (\<exists>m. Home_render tz (foldl (Home_fetchData tz) (Home_fetchData tz s first) os) =
                Inr (ErrorScreen m)))) \<and>
   (\<forall>d. fetch_try later = Inr d \<longrightarrow>
      error (Home_fetchData tz s later) = error s \<and>
      scoreData (Home_fetchData tz s later) = Array_sort (compare_created_at tz) d \<and>
      error (Filtered_fetchData f later) = error f \<and>
      scoreData (Filtered_fetchData f later) = d)"
proof (intro conjI impI allI)
  have e1: "error (Home_fetchData tz s first) \<noteq> None"
    using assms by (simp add: Home_fetchData_Inl)
  then show "error (foldl (Home_fetchData tz) (Home_fetchData tz s first) os) \<noteq> None"
    by (rule Home_run_error_kept)
  have e2: "error (Filtered_fetchData f first) \<noteq> None"
    using assms by (simp add: Filtered_fetchData_Inl)
  then show "error (foldl Filtered_fetchData (Filtered_fetchData f first) os) \<noteq> None"
    by (rule Filtered_run_error_kept)
next
  assume platform: "\<forall>outcome\<in>set (first # os). \<forall>m.
       outcome = Rejected (JsError m) \<or>
       (\<exists>response. outcome = Fulfilled response \<and> ok response \<and>
           json response = Rejected (JsError m)) \<longrightarrow> m \<noteq> []"
  have ne: "catch_message e \<noteq> []"
    if "outcome \<in> set (first # os)" "fetch_try outcome = Inl e" for outcome e
    using that(2) platform that(1) by (intro catch_message_nonempty [of outcome e]) blast+
  have m: "catch_message err \<noteq> []"
    by (rule ne [of first]) (simp_all add: assms)
  have rest: "\<forall>outcome\<in>set os. \<forall>e. fetch_try outcome = Inl e \<longrightarrow> catch_message e \<noteq> []"
    using ne by (meson list.set_intros(2))
  have "\<exists>m. error (Filtered_fetchData f first) = Some m \<and> m \<noteq> []"
    using assms m by (simp add: Filtered_fetchData_Inl)
  then have "\<exists>m. error (foldl Filtered_fetchData (Filtered_fetchData f first) os) = Some m \<and> m \<noteq> []"
    using rest by (rule Filtered_run_error_shown)
  moreover have "\<not> loading (foldl Filtered_fetchData (Filtered_fetchData f first) os)"
    by (rule Filtered_run_not_loading) (rule Filtered_not_loading)
  ultimately show "\<exists>m. render (foldl Filtered_fetchData (Filtered_fetchData f first) os) = ErrorScreen m"
    by (rule render_error_shown)
  show "\<exists>m. Home_render tz (foldl (Home_fetchData tz) (Home_fetchData tz s first) os) =
                Inr (ErrorScreen m)"
    if readable: "\<forall>r\<in>set (scoreData (foldl (Home_fetchData tz) (Home_fetchData tz s first) os)).
           Date_getTime tz (created_at r @ ''Z'') \<noteq> None"
  proof -
    have "\<exists>m. error (Home_fetchData tz s first) = Some m \<and> m \<noteq> []"
      using assms m by (simp add: Home_fetchData_Inl)
    then have "\<exists>m. error (foldl (Home_fetchData tz) (Home_fetchData tz s first) os) = Some m \<and> m \<noteq> []"
      using rest by (rule Home_run_error_shown)
    moreover have "\<not> loading (foldl (Home_fetchData tz) (Home_fetchData tz s first) os)"
      by (rule Home_run_not_loading) (rule Home_not_loading)
    ultimately obtain m where
      "render (foldl (Home_fetchData tz) (Home_fetchData tz s first) os) = ErrorScreen m"
      using render_error_shown by blast
    then show ?thesis
      using Home_render_readable [OF readable] by simp
  qed
qed (simp_all add: Home_fetchData_Inr Filtered_fetchData_Inr)

theorem sticky_error_witness:
  "fetch_try (Rejected (JsError ''Failed to fetch'')) = Inl (JsError ''Failed to fetch'') \<and>
   ''Failed to fetch'' \<noteq> [] \<and>
   Date_getTime 540 (''2024-10-05T03:00:00'' @ ''Z'') \<noteq> None \<and>
   scoreData (foldl (Home_fetchData 540) (Home_fetchData 540 initial_view (Rejected (JsError ''Failed to fetch''))) [(Fulfilled \<lparr>ok = True, json = Fulfilled \<lparr>data = [\<lparr>created_at = ''2024-10-05T03:00:00'', rec_id = 1, score = 10\<rparr>], status = ''OK''\<rparr>\<rparr>)]) =
     [\<lparr>created_at = ''2024-10-05T03:00:00'', rec_id = 1, score = 10\<rparr>] \<and>
   Home_render 540 (foldl (Home_fetchData 540) (Home_fetchData 540 initial_view (Rejected (JsError ''Failed to fetch''))) [(Fulfilled \<lparr>ok = True, json = Fulfilled \<lparr>data = [\<lparr>created_at = ''2024-10-05T03:00:00'', rec_id = 1, score = 10\<rparr>], status = ''OK''\<rparr>\<rparr>)]) =
     Inr (ErrorScreen ''Failed to fetch'') \<and>
   render (foldl Filtered_fetchData (Filtered_fetchData \<lparr>scoreData = [], loading = True, error = None, filteredData = [], startDate = ''2024-10-05'', endDate = ''2024-10-05'', timeRange = (0, 23)\<rparr> (Rejected (JsError ''Failed to fetch''))) [(Fulfilled \<lparr>ok = True, json = Fulfilled \<lparr>data = [\<lparr>created_at = ''2024-10-05T03:00:00'', rec_id = 1, score = 10\<rparr>], status = ''OK''\<rparr>\<rparr>)]) =
     ErrorScreen ''Failed to fetch''"
  using sticky_error [where first = "(Rejected (JsError ''Failed to fetch''))" and err = "JsError ''Failed to fetch''" and tz = 540
      and s = initial_view and f = "\<lparr>scoreData = [], loading = True, error = None, filteredData = [], startDate = ''2024-10-05'', endDate = ''2024-10-05'', timeRange = (0, 23)\<rparr>" and os = "[(Fulfilled \<lparr>ok = True, json = Fulfilled \<lparr>data = [\<lparr>created_at = ''2024-10-05T03:00:00'', rec_id = 1, score = 10\<rparr>], status = ''OK''\<rparr>\<rparr>)]" and later = "(Fulfilled \<lparr>ok = True, json = Fulfilled \<lparr>data = [\<lparr>created_at = ''2024-10-05T03:00:00'', rec_id = 1, score = 10\<rparr>], status = ''OK''\<rparr>\<rparr>)"]
  by (simp add: fetch_try_def catch_message_def initial_view_def Home_fetchData_def
        Filtered_fetchData_def Array_sort_def render_def Home_render_def formatDateToJST_0300
        getTime_0300_Z)

text \<open>
  C10 as stated fails at two inputs. In \<open>total/page.tsx\<close>, after a failed fetch, a rejected
  \<open>fetch\<close> whose error has the empty message sets \<open>error\<close> to the empty string, which is
  not \<open>null\<close>, and the view is the chart again. In the live view, after a failed fetch, a
  fetch that succeeds with a record whose \<open>created_at\<close> cannot be read makes the render
  throw a \<open>RangeError\<close> in the label computation: no error text is shown.
\<close>

theorem sticky_error_counterexample:
  "error (Filtered_fetchData (Filtered_fetchData \<lparr>scoreData = [\<lparr>created_at = ''2024-10-05T03:00:00'', rec_id = 1, score = 10\<rparr>], loading = False, error = None, filteredData = [\<lparr>created_at = ''2024-10-05T03:00:00'', rec_id = 1, score = 10\<rparr>], startDate = ''2024-10-05'', endDate = ''2024-10-05'', timeRange = (0, 23)\<rparr> (Fulfilled \<lparr>ok = True, json = Fulfilled \<lparr>data = [], status = ''ERROR''\<rparr>\<rparr>)) (Rejected (JsError []))) = Some [] \<and>
   render (Filtered_fetchData (Filtered_fetchData \<lparr>scoreData = [\<lparr>created_at = ''2024-10-05T03:00:00'', rec_id = 1, score = 10\<rparr>], loading = False, error = None, filteredData = [\<lparr>created_at = ''2024-10-05T03:00:00'', rec_id = 1, score = 10\<rparr>], startDate = ''2024-10-05'', endDate = ''2024-10-05'', timeRange = (0, 23)\<rparr> (Fulfilled \<lparr>ok = True, json = Fulfilled \<lparr>data = [], status = ''ERROR''\<rparr>\<rparr>)) (Rejected (JsError []))) = MainScreen \<and>
   error (Home_fetchData 540 (Home_fetchData 540 initial_view (Fulfilled \<lparr>ok = True, json = Fulfilled \<lparr>data = [], status = ''ERROR''\<rparr>\<rparr>)) (Fulfilled \<lparr>ok = True, json = Fulfilled \<lparr>data = [\<lparr>created_at = ''garbage'', rec_id = 3, score = 7\<rparr>], status = ''OK''\<rparr>\<rparr>)) =
     Some msg_bad_status \<and>
   scoreData (Home_fetchData 540 (Home_fetchData 540 initial_view (Fulfilled \<lparr>ok = True, json = Fulfilled \<lparr>data = [], status = ''ERROR''\<rparr>\<rparr>)) (Fulfilled \<lparr>ok = True, json = Fulfilled \<lparr>data = [\<lparr>created_at = ''garbage'', rec_id = 3, score = 7\<rparr>], status = ''OK''\<rparr>\<rparr>)) = [\<lparr>created_at = ''garbage'', rec_id = 3, score = 7\<rparr>] \<and>
   Home_render 540 (Home_fetchData 540 (Home_fetchData 540 initial_view (Fulfilled \<lparr>ok = True, json = Fulfilled \<lparr>data = [], status = ''ERROR''\<rparr>\<rparr>)) (Fulfilled \<lparr>ok = True, json = Fulfilled \<lparr>data = [\<lparr>created_at = ''garbage'', rec_id = 3, score = 7\<rparr>], status = ''OK''\<rparr>\<rparr>)) =
     Inl RangeError"
  by (simp add: Home_fetchData_def Filtered_fetchData_def fetch_try_def initial_view_def render_def
        Home_render_def Array_sort_def catch_message_def formatDateToJST_garbage)

section \<open>Properties of the filters\<close>

lemma js_ge_le: "js_ge a b = js_le b a"
  by (simp add: js_ge_def js_le_def split: option.splits)

lemma js_le_refl: "js_le (Some a) (Some a)"
  by (simp add: js_le_def)

lemma js_gt_not_le: "js_gt a b \<Longrightarrow> js_le a c \<Longrightarrow> js_le c b \<Longrightarrow> False"
  by (auto simp: js_gt_def js_le_def split: option.splits)

lemma filter_throwing_total:
  "\<forall>x\<in>set xs. p x = Inr (q x) \<Longrightarrow> filter_throwing p xs = Inr (filter q xs)"
  by (induction xs) simp_all

lemma applyDateFilter_item_eq:
  "applyDateFilter_item tz sd ed tr =
     (\<lambda>item.
        js_le (instant_at tz (sd @ ''T'' @ padStart 2 (CHR ''0'') (String_nat (fst tr)) @ '':00''))
              (Date_getTime tz (created_at item)) \<and>
        js_le (Date_getTime tz (created_at item))
              (instant_at tz (ed @ ''T'' @ padStart 2 (CHR ''0'') (String_nat (snd tr)) @ '':59'')))"
  by (rule ext)
     (simp only: applyDateFilter_item_def Let_def js_ge_le Date_getTime_start Date_getTime_end)

lemma plus9_start:
  "Date_getTime tz (sd @ ''T'' @ h @ '':00:00+09:00'') = instant_at 540 (sd @ ''T'' @ h @ '':00:00'')"
proof -
  have "sd @ ''T'' @ h @ '':00:00+09:00'' = (sd @ ''T'' @ h @ '':00:00'') @ ''+09:00''"
    by simp
  then show ?thesis
    by (simp only: Date_getTime_plus9)
qed

lemma plus9_end:
  "Date_getTime tz (ed @ ''T'' @ h @ '':59:59+09:00'') = instant_at 540 (ed @ ''T'' @ h @ '':59:59'')"
proof -
  have "ed @ ''T'' @ h @ '':59:59+09:00'' = (ed @ ''T'' @ h @ '':59:59'') @ ''+09:00''"
    by simp
  then show ?thesis
    by (simp only: Date_getTime_plus9)
qed

lemma filterEffect_item_eq:
  assumes "Date_getTime tz (created_at item @ ''Z'') = Some t"
  shows "filterEffect_item tz sd ed st et item =
     Inr (js_le (instant_at 540 (sd @ ''T'' @ padStart 2 (CHR ''0'') (String_nat st) @ '':00:00''))
                (Date_getTime tz (Intl_format_Tokyo t)) \<and>
          js_le (Date_getTime tz (Intl_format_Tokyo t))
                (instant_at 540 (ed @ ''T'' @ padStart 2 (CHR ''0'') (String_nat et) @ '':59:59'')))"
  using assms
  by (simp only: filterEffect_item_def formatDateToJST_def Let_def js_ge_le plus9_start plus9_end
        option.case sum.case)

lemma instant_at_shift:
  "instant_at off s = Some a \<Longrightarrow> instant_at off' s = Some (a + (off - off') * 60000)"
  by (auto simp: instant_at_def algebra_simps split: option.splits if_splits)

lemma totalData_Nil: "totalData [] = \<lparr>acc_fun = 0, acc_tired = 0\<rparr>"
  by (simp add: totalData_def)

text \<open>
  C8. In \<open>total/page.tsx\<close>, when the start of the range (date, hour, \<open>:00\<close>, at UTC+9) is
  later than its end (date, hour, \<open>:59\<close>, at UTC+9), applying the filter leaves no record
  and the totals are 0 and 0; \<open>applyDateFilter\<close> returns a state, it cannot throw. The
  order of the two ends is the same in every local zone, so it is the order of the values
  the code compares.
\<close>

theorem inverted_range_empty:
  assumes "js_gt (instant_at 540 (startDate p @ ''T'' @
                    padStart 2 (CHR ''0'') (String_nat (fst (timeRange p))) @ '':00''))
                 (instant_at 540 (endDate p @ ''T'' @
                    padStart 2 (CHR ''0'') (String_nat (snd (timeRange p))) @ '':59''))"
  shows "filteredData (applyDateFilter tz p) = [] \<and>
         totalData (filteredData (applyDateFilter tz p)) = \<lparr>acc_fun = 0, acc_tired = 0\<rparr>"
proof -
  let ?S = "startDate p @ ''T'' @ padStart 2 (CHR ''0'') (String_nat (fst (timeRange p))) @ '':00''"
  let ?E = "endDate p @ ''T'' @ padStart 2 (CHR ''0'') (String_nat (snd (timeRange p))) @ '':59''"
  from assms obtain a b where a: "instant_at 540 ?S = Some a" and b: "instant_at 540 ?E = Some b"
    and gt: "a > b"
    by (auto simp: js_gt_def split: option.splits)
  have sd: "startDate p \<noteq> []"
  proof
    assume "startDate p = []"
    then have "instant_at 540 ?S = None"
      by (simp add: instant_at_T)
    with a show False by simp
  qed
  have ed: "endDate p \<noteq> []"
  proof
    assume "endDate p = []"
    then have "instant_at 540 ?E = None"
      by (simp add: instant_at_T)
    with b show False by simp
  qed
  have "js_gt (instant_at tz ?S) (instant_at tz ?E)"
    using instant_at_shift [OF a, of tz] instant_at_shift [OF b, of tz] gt
    by (simp add: js_gt_def)
  then have "\<not> applyDateFilter_item tz (startDate p) (endDate p) (timeRange p) r" for r
    unfolding applyDateFilter_item_eq using js_gt_not_le by blast
  then have "filteredData (applyDateFilter tz p) = []"
    using sd ed by (simp add: applyDateFilter_def)
  then show ?thesis
    by (simp add: totalData_Nil)
qed

theorem inverted_range_empty_witness:
  "js_gt (instant_at 540 ''2024-10-06T00:00'') (instant_at 540 ''2024-10-05T23:59'') \<and>
   filteredData (applyDateFilter 540
      \<lparr>scoreData = [\<lparr>created_at = ''2024-10-05T03:00:00'', rec_id = 1, score = 10\<rparr>],
       loading = False, error = None,
       filteredData = [\<lparr>created_at = ''2024-10-05T03:00:00'', rec_id = 1, score = 10\<rparr>],
       startDate = ''2024-10-06'', endDate = ''2024-10-05'', timeRange = (0, 23)\<rparr>) = [] \<and>
   totalData (filteredData (applyDateFilter 540
      \<lparr>scoreData = [\<lparr>created_at = ''2024-10-05T03:00:00'', rec_id = 1, score = 10\<rparr>],
       loading = False, error = None,
       filteredData = [\<lparr>created_at = ''2024-10-05T03:00:00'', rec_id = 1, score = 10\<rparr>],
       startDate = ''2024-10-06'', endDate = ''2024-10-05'', timeRange = (0, 23)\<rparr>)) = \<lparr>acc_fun = 0, acc_tired = 0\<rparr>"
  using inverted_range_empty [where tz = 540
      and p = "\<lparr>scoreData = [\<lparr>created_at = ''2024-10-05T03:00:00'', rec_id = 1, score = 10\<rparr>],
       loading = False, error = None,
       filteredData = [\<lparr>created_at = ''2024-10-05T03:00:00'', rec_id = 1, score = 10\<rparr>],
       startDate = ''2024-10-06'', endDate = ''2024-10-05'', timeRange = (0, 23)\<rparr>"]
  by (simp add: pad_00 pad_23 instant_at_1006_0000 instant_at_1005_2359 js_gt_def totalData_Nil)

text \<open>
  C3 does not hold for \<open>applyDateFilter\<close> of \<open>total/page.tsx\<close>, which reads the record
  time and both ends of the range without an offset, in the local zone. For the range
  2024-10-05, hours 0 to 23, a record created at 2024-10-05T20:00:00 (UTC, as the labels of
  the live views read it) is kept, in a browser at UTC and in one at UTC+9, although it
  lies after the end of the range at UTC+9 (14:59:59 UTC). The filter of the other totals
  view, with its ends at \<open>+09:00\<close>, drops that record.
\<close>

theorem applyDateFilter_reads_local_zone:
  "filteredData (applyDateFilter 0 \<lparr>scoreData = [\<lparr>created_at = ''2024-10-05T20:00:00'', rec_id = 2, score = - 5\<rparr>], loading = False, error = None, filteredData = [\<lparr>created_at = ''2024-10-05T20:00:00'', rec_id = 2, score = - 5\<rparr>], startDate = ''2024-10-05'', endDate = ''2024-10-05'', timeRange = (0, 23)\<rparr>) = [\<lparr>created_at = ''2024-10-05T20:00:00'', rec_id = 2, score = - 5\<rparr>] \<and>
   filteredData (applyDateFilter 540 \<lparr>scoreData = [\<lparr>created_at = ''2024-10-05T20:00:00'', rec_id = 2, score = - 5\<rparr>], loading = False, error = None, filteredData = [\<lparr>created_at = ''2024-10-05T20:00:00'', rec_id = 2, score = - 5\<rparr>], startDate = ''2024-10-05'', endDate = ''2024-10-05'', timeRange = (0, 23)\<rparr>) = [\<lparr>created_at = ''2024-10-05T20:00:00'', rec_id = 2, score = - 5\<rparr>] \<and>
   Date_getTime 0 (''2024-10-05T20:00:00'' @ ''Z'') = Some 1728158400000 \<and>
   Date_getTime 0 (''2024-10-05'' @ ''T'' @ padStart 2 (CHR ''0'') (String_nat 23) @ '':59:59+09:00'') =
     Some 1728140399000 \<and>
   \<not> js_le (Date_getTime 0 (''2024-10-05T20:00:00'' @ ''Z''))
        (Date_getTime 0 (''2024-10-05'' @ ''T'' @ padStart 2 (CHR ''0'') (String_nat 23) @
           '':59:59+09:00'')) \<and>
   filterEffect 0 \<lparr>scoreData = [\<lparr>created_at = ''2024-10-05T20:00:00'', rec_id = 2, score = - 5\<rparr>], loading = False, error = None, filteredData = [\<lparr>created_at = ''2024-10-05T20:00:00'', rec_id = 2, score = - 5\<rparr>], startDate = ''2024-10-05'', endDate = ''2024-10-05'', startTime = 0, endTime = 23\<rparr> = Inr \<lparr>scoreData = [\<lparr>created_at = ''2024-10-05T20:00:00'', rec_id = 2, score = - 5\<rparr>], loading = False, error = None, filteredData = [], startDate = ''2024-10-05'', endDate = ''2024-10-05'', startTime = 0, endTime = 23\<rparr>"
  by (simp add: applyDateFilter_def applyDateFilter_item_eq filterEffect_def filterEffect_item_def
        pad_00 pad_23 instant_at_1005_0000 instant_at_1005_2359 getTime_2000 getTime_2000_Z
        getTime_235959_plus9 getTime_000000_plus9 formatDateToJST_2000 getTime_formatted_0500
        js_le_def js_ge_def)

section \<open>Properties of the range aggregation\<close>

lemma foldl_totalData_step_eq:
  "foldl totalData_step acc xs =
     \<lparr>acc_fun = acc_fun acc + sum_list (map score (filter (\<lambda>item. score item \<ge> 0) xs)),
      acc_tired = acc_tired acc +
        sum_list (map (\<lambda>item. \<bar>score item\<bar>) (filter (\<lambda>item. score item < 0) xs))\<rparr>"
  by (induction xs arbitrary: acc) (simp_all add: totalData_step_def)

lemma totalData_eq:
  "totalData xs =
     \<lparr>acc_fun = sum_list (map score (filter (\<lambda>item. score item \<ge> 0) xs)),
      acc_tired = sum_list (map (\<lambda>item. \<bar>score item\<bar>) (filter (\<lambda>item. score item < 0) xs))\<rparr>"
  by (simp add: totalData_def foldl_totalData_step_eq)

text \<open>
  C1 does not hold for the totals of \<open>total/page.tsx\<close> after \<open>applyDateFilter\<close>, for the
  same reason as C3. For the range 2024-10-05, hours 0 to 23, the record of score 10 created
  at 2024-10-04T16:00:00 UTC (01:00 in Japan on 2024-10-05) lies within the range and the
  record of score -5 created at 2024-10-05T20:00:00 UTC lies after it, so the totals of the
  range are 10 and 0; the code gives 0 and 5, in a browser at UTC and in one at UTC+9. The
  two buckets themselves are as the claim says (\<open>totalData_eq\<close>).
\<close>

theorem totalData_counts_wrong_records:
  "totalData (filteredData (applyDateFilter 0 \<lparr>scoreData = [\<lparr>created_at = ''2024-10-04T16:00:00'', rec_id = 1, score = 10\<rparr>, \<lparr>created_at = ''2024-10-05T20:00:00'', rec_id = 2, score = - 5\<rparr>], loading = False, error = None, filteredData = [\<lparr>created_at = ''2024-10-04T16:00:00'', rec_id = 1, score = 10\<rparr>, \<lparr>created_at = ''2024-10-05T20:00:00'', rec_id = 2, score = - 5\<rparr>], startDate = ''2024-10-05'', endDate = ''2024-10-05'', timeRange = (0, 23)\<rparr>)) = \<lparr>acc_fun = 0, acc_tired = 5\<rparr> \<and>
   totalData (filteredData (applyDateFilter 540 \<lparr>scoreData = [\<lparr>created_at = ''2024-10-04T16:00:00'', rec_id = 1, score = 10\<rparr>, \<lparr>created_at = ''2024-10-05T20:00:00'', rec_id = 2, score = - 5\<rparr>], loading = False, error = None, filteredData = [\<lparr>created_at = ''2024-10-04T16:00:00'', rec_id = 1, score = 10\<rparr>, \<lparr>created_at = ''2024-10-05T20:00:00'', rec_id = 2, score = - 5\<rparr>], startDate = ''2024-10-05'', endDate = ''2024-10-05'', timeRange = (0, 23)\<rparr>)) = \<lparr>acc_fun = 0, acc_tired = 5\<rparr> \<and>
   js_le (Date_getTime 0 (''2024-10-05'' @ ''T'' @ padStart 2 (CHR ''0'') (String_nat 0) @
            '':00:00+09:00''))
         (Date_getTime 0 (''2024-10-04T16:00:00'' @ ''Z'')) \<and>
   js_le (Date_getTime 0 (''2024-10-04T16:00:00'' @ ''Z''))
         (Date_getTime 0 (''2024-10-05'' @ ''T'' @ padStart 2 (CHR ''0'') (String_nat 23) @
            '':59:59+09:00'')) \<and>
   \<not> js_le (Date_getTime 0 (''2024-10-05T20:00:00'' @ ''Z''))
        (Date_getTime 0 (''2024-10-05'' @ ''T'' @ padStart 2 (CHR ''0'') (String_nat 23) @
           '':59:59+09:00''))"
  by (simp add: applyDateFilter_def applyDateFilter_item_eq totalData_def totalData_step_def
        pad_00 pad_23 instant_at_1005_0000 instant_at_1005_2359 getTime_2000 getTime_2000_Z
        getTime_1600 getTime_1600_Z getTime_235959_plus9 getTime_000000_plus9 js_le_def)

end
